theory Spec2Isabelle
  imports Complex_Main "HOL-Library.Product_Lexorder"
begin

section \<open>Numbers, rounding and bars\<close>

text \<open>
  The analytics work on Python and numpy floats. They are modelled by exact rationals:
  every comparison, sum and quotient of the source is kept, and only the rounding error
  of binary floating point is left out. Where a division by zero or an empty column
  decides what the source does (an infinite gap percentage, a percentage that is not a
  number, an exception on an empty window), the definition concerned says so.
\<close>

text \<open>Round half to even, the rule of Python's \<^verbatim>\<open>round\<close> and of numpy's.\<close>

definition rint :: "rat \<Rightarrow> int" where
  "rint x =
     (let f = \<lfloor>x\<rfloor>; d = x - of_int f
      in if d < 1 / 2 then f
         else if 1 / 2 < d then f + 1
         else if even f then f else f + 1)"

text \<open>\<^verbatim>\<open>round(x, ndigits)\<close> for a non-negative number of digits.\<close>

definition round_nd :: "rat \<Rightarrow> nat \<Rightarrow> rat" where
  "round_nd x ndigits = of_int (rint (x * 10 ^ ndigits)) / 10 ^ ndigits"

text \<open>
  One row of an OHLCV frame. \<open>datetime\<close> is the row's time stamp in seconds; only the
  opening-range analysis reads it.
\<close>

record bar =
  datetime :: int
  b_open :: rat
  high :: rat
  low :: rat
  close :: rat
  volume :: rat

text \<open>The mean of a column (\<^verbatim>\<open>Series.mean\<close>) on a frame that has rows.\<close>

definition mean :: "rat list \<Rightarrow> rat" where
  "mean xs = sum_list xs / of_nat (length xs)"

text \<open>
  \<^verbatim>\<open>df.tail(n)\<close>: the last \<open>n\<close> rows, and for a negative \<open>n\<close> all rows but the first
  \<open>-n\<close>.
\<close>

definition tail :: "int \<Rightarrow> 'a list \<Rightarrow> 'a list" where
  "tail n df = (if 0 \<le> n then drop (length df - nat n) df else drop (nat (- n)) df)"

text \<open>
  \<^verbatim>\<open>xs[:k]\<close>: the first \<open>k\<close> entries, and for a negative \<open>k\<close> all entries but the
  last \<open>-k\<close>.
\<close>

definition slice_to :: "int \<Rightarrow> 'a list \<Rightarrow> 'a list" where
  "slice_to k xs = (if 0 \<le> k then take (nat k) xs else take (length xs - nat (- k)) xs)"

text \<open>The maximum and the minimum of a column that has rows.\<close>

definition col_max :: "rat list \<Rightarrow> rat" where
  "col_max xs = fold max (tl xs) (hd xs)"

definition col_min :: "rat list \<Rightarrow> rat" where
  "col_min xs = fold min (tl xs) (hd xs)"

text \<open>
  A Python dict with its insertion order: storing under a key that is present replaces
  the value in place, storing under a new key appends.
\<close>

fun dict_set :: "('k \<times> 'v) list \<Rightarrow> 'k \<Rightarrow> 'v \<Rightarrow> ('k \<times> 'v) list" where
  "dict_set [] k v = [(k, v)]"
| "dict_set ((k', v') # m) k v = (if k' = k then (k, v) # m else (k', v') # dict_set m k v)"

definition dict_get :: "('k \<times> 'v) list \<Rightarrow> 'k \<Rightarrow> 'v \<Rightarrow> 'v" where
  "dict_get m k d = (case map_of m k of None \<Rightarrow> d | Some v \<Rightarrow> v)"

section \<open>Fair value gaps (fvg\_calculator.py)\<close>

datatype gap_kind = Bullish | Bearish

record candle_snapshot =
  snap_high :: rat
  snap_low :: rat
  snap_close :: rat

record volume_snapshot =
  candle_1_volume :: rat
  candle_2_volume :: rat
  candle_3_volume :: rat
  avg_volume_20_periods :: rat

text \<open>
  The dataclass \<^verbatim>\<open>FairValueGap\<close>. The frames modelled here carry no pandas time stamps,
  so the source takes the candle index \<open>i\<close> as the gap's age and builds the gap's id from
  the time frame and \<open>i\<close>: \<open>gap_index\<close> holds that \<open>i\<close> and \<open>age_minutes\<close> equals it.
\<close>

record FairValueGap =
  gap_index :: nat
  gap_type :: gap_kind
  timeframe :: string
  gap_high :: rat
  gap_low :: rat
  gap_size :: rat
  gap_midpoint :: rat
  candle_data :: "candle_snapshot \<times> candle_snapshot \<times> candle_snapshot"
  volume_data :: volume_snapshot
  age_minutes :: int
  times_tested :: nat
  lowest_test :: "rat option"
  highest_test :: "rat option"
  filled_percentage :: rat
  currently_inside_gap :: bool

definition snapshot :: "bar \<Rightarrow> candle_snapshot" where
  "snapshot c = \<lparr>snap_high = high c, snap_low = low c, snap_close = close c\<rparr>"

text \<open>The constructor call of \<^verbatim>\<open>detect_fvgs\<close>, with the dataclass's defaults.\<close>

definition new_gap ::
  "nat \<Rightarrow> gap_kind \<Rightarrow> string \<Rightarrow> rat \<Rightarrow> rat \<Rightarrow>
   candle_snapshot \<times> candle_snapshot \<times> candle_snapshot \<Rightarrow> volume_snapshot \<Rightarrow> FairValueGap" where
  "new_gap i kind tf g_high g_low candles volumes =
     \<lparr>gap_index = i, gap_type = kind, timeframe = tf,
      gap_high = g_high, gap_low = g_low,
      gap_size = g_high - g_low, gap_midpoint = (g_high + g_low) / 2,
      candle_data = candles, volume_data = volumes, age_minutes = int i,
      times_tested = 0, lowest_test = None, highest_test = None,
      filled_percentage = 0, currently_inside_gap = False\<rparr>"

text \<open>
  One round of the loop over the candles after the gap: the running state is
  \<open>(tests, lowest_test, highest_test)\<close>.
\<close>

definition test_candle ::
  "rat \<Rightarrow> rat \<Rightarrow> nat \<times> rat option \<times> rat option \<Rightarrow> bar \<Rightarrow> nat \<times> rat option \<times> rat option" where
  "test_candle g_low g_high st candle =
     (case st of (tests, lowest, highest) \<Rightarrow>
        if low candle \<le> g_high \<and> high candle \<ge> g_low then
          (let test_low = max (low candle) g_low;
               test_high = min (high candle) g_high
           in (tests + 1,
               (case lowest of None \<Rightarrow> Some test_low
                | Some l \<Rightarrow> if test_low < l then Some test_low else Some l),
               (case highest of None \<Rightarrow> Some test_high
                | Some h \<Rightarrow> if test_high > h then Some test_high else Some h)))
        else (tests, lowest, highest))"

definition scan_tests :: "rat \<Rightarrow> rat \<Rightarrow> bar list \<Rightarrow> nat \<times> rat option \<times> rat option" where
  "scan_tests g_low g_high price_history =
     foldl (test_candle g_low g_high) (0, None, None) price_history"

text \<open>\<^verbatim>\<open>_analyze_gap_interaction\<close>: the gap object is updated in place; the model returns it.\<close>

definition analyze_gap_interaction :: "FairValueGap \<Rightarrow> bar list \<Rightarrow> rat \<Rightarrow> FairValueGap" where
  "analyze_gap_interaction fvg price_history current_price =
     (if price_history = [] then fvg
      else
        (let inside = (gap_low fvg \<le> current_price \<and> current_price \<le> gap_high fvg) in
         case scan_tests (gap_low fvg) (gap_high fvg) price_history of
           (tests, lowest, highest) \<Rightarrow>
             (let fvg' = fvg\<lparr>currently_inside_gap := inside, times_tested := tests,
                            lowest_test := lowest, highest_test := highest\<rparr>
              in case (lowest, highest) of
                   (Some l, Some h) \<Rightarrow>
                     if tests > 0
                     then fvg'\<lparr>filled_percentage := min ((h - l) / gap_size fvg * 100) 100\<rparr>
                     else fvg'
                 | _ \<Rightarrow> fvg')))"

text \<open>
  The test for a gap between the oldest and the newest of three candles: the result is
  \<open>(gap_high, gap_low, gap_type)\<close>, or nothing when the scan moves on.
\<close>

definition gap_bounds :: "bar \<Rightarrow> bar \<Rightarrow> (rat \<times> rat \<times> gap_kind) option" where
  "gap_bounds candle1 candle3 =
     (if high candle1 < low candle3 then Some (low candle3, high candle1, Bullish)
      else if low candle1 > high candle3 then Some (low candle1, high candle3, Bearish)
      else None)"

text \<open>
  The size filter. The percentage is a numpy division: a midpoint of zero gives an
  infinite percentage, which is not below the minimum, so such a gap is kept.
\<close>

definition gap_too_small :: "rat \<Rightarrow> rat \<Rightarrow> rat \<Rightarrow> bool" where
  "gap_too_small min_gap_percentage g_high g_low =
     (let g_size = g_high - g_low;
          g_midpoint = (g_high + g_low) / 2
      in g_midpoint \<noteq> 0 \<and> g_size / g_midpoint * 100 < min_gap_percentage)"

definition volume_context :: "bar list \<Rightarrow> bar \<Rightarrow> bar \<Rightarrow> bar \<Rightarrow> volume_snapshot" where
  "volume_context df_analysis candle1 candle2 candle3 =
     (let vols = map volume df_analysis;
          avg_volume_20 = (if length df_analysis \<ge> 20 then mean (take 20 vols) else mean vols)
      in \<lparr>candle_1_volume = volume candle1,
          candle_2_volume = volume candle2,
          candle_3_volume = volume candle3,
          avg_volume_20_periods = avg_volume_20\<rparr>)"

text \<open>
  The body of the scan at index \<open>i\<close>: candles \<open>i - 2\<close>, \<open>i - 1\<close>, \<open>i\<close> of the analysed
  frame, and the candles after \<open>i\<close> as the gap's price history.
\<close>

definition gap_at ::
  "rat \<Rightarrow> bar list \<Rightarrow> string \<Rightarrow> rat \<Rightarrow> nat \<Rightarrow> FairValueGap option" where
  "gap_at min_gap_percentage df_analysis tf current_price i =
     (let candle3 = df_analysis ! i;
          candle2 = df_analysis ! (i - 1);
          candle1 = df_analysis ! (i - 2)
      in case gap_bounds candle1 candle3 of
           None \<Rightarrow> None
         | Some (g_high, g_low, kind) \<Rightarrow>
             if gap_too_small min_gap_percentage g_high g_low then None
             else
               Some (analyze_gap_interaction
                       (new_gap i kind tf g_high g_low
                          (snapshot candle1, snapshot candle2, snapshot candle3)
                          (volume_context df_analysis candle1 candle2 candle3))
                       (drop (i + 1) df_analysis) current_price))"

text \<open>
  \<^verbatim>\<open>FVGCalculator.detect_fvgs\<close>: the scan runs from the newest candle backwards, over
  \<open>i = len - 1, \<dots>, 2\<close>.
\<close>

definition detect_fvgs ::
  "rat \<Rightarrow> bar list \<Rightarrow> string \<Rightarrow> rat \<Rightarrow> int \<Rightarrow> FairValueGap list" where
  "detect_fvgs min_gap_percentage df tf current_price lookback_periods =
     (if length df < 3 then []
      else
        (let df_analysis = tail (min lookback_periods (int (length df))) df
         in List.map_filter (gap_at min_gap_percentage df_analysis tf current_price)
              (rev [2..<length df_analysis])))"

text \<open>The entries of the nearest-gap lists.\<close>

record gap_info =
  gi_level :: rat
  gi_timeframe :: string
  gi_gap_index :: nat
  gi_distance :: rat
  gi_gap_type :: gap_kind
  gi_filled_percentage :: rat

definition make_gap_info :: "rat \<Rightarrow> FairValueGap \<Rightarrow> gap_info" where
  "make_gap_info current_price gap =
     \<lparr>gi_level = round_nd (gap_midpoint gap) 2,
      gi_timeframe = timeframe gap,
      gi_gap_index = gap_index gap,
      gi_distance = round_nd \<bar>gap_midpoint gap - current_price\<bar> 2,
      gi_gap_type = gap_type gap,
      gi_filled_percentage = round_nd (filled_percentage gap) 1\<rparr>"

text \<open>One round of the partition loop: the state is \<open>(gaps_above, gaps_below)\<close>.\<close>

definition place_gap ::
  "rat \<Rightarrow> gap_info list \<times> gap_info list \<Rightarrow> FairValueGap \<Rightarrow> gap_info list \<times> gap_info list" where
  "place_gap current_price st gap =
     (case st of (gaps_above, gaps_below) \<Rightarrow>
        if gap_low gap > current_price then (gaps_above @ [make_gap_info current_price gap], gaps_below)
        else if gap_high gap < current_price then (gaps_above, gaps_below @ [make_gap_info current_price gap])
        else (gaps_above, gaps_below))"

record nearest_gaps =
  above_current_price :: "gap_info list"
  below_current_price :: "gap_info list"

text \<open>
  \<^verbatim>\<open>FVGCalculator.find_nearest_gaps\<close>. \<^verbatim>\<open>list.sort\<close> is stable, as \<open>sort_key\<close> is; the
  key is the entry's \<^verbatim>\<open>'distance'\<close>.
\<close>

definition find_nearest_gaps :: "FairValueGap list \<Rightarrow> rat \<Rightarrow> int \<Rightarrow> nearest_gaps" where
  "find_nearest_gaps gaps current_price max_gaps =
     (case foldl (place_gap current_price) ([], []) gaps of
        (gaps_above, gaps_below) \<Rightarrow>
          \<lparr>above_current_price = slice_to max_gaps (sort_key gi_distance gaps_above),
           below_current_price = slice_to max_gaps (sort_key gi_distance gaps_below)\<rparr>)"

section \<open>Opening range breakout (orb\_tool.py)\<close>

datatype position = AboveRange | BelowRange | InsideRange

datatype breakout_kind = BullishBreakout | BearishBreakout

text \<open>\<^verbatim>\<open>int(x)\<close> on a float: truncation towards zero.\<close>

definition trunc :: "rat \<Rightarrow> int" where
  "trunc x = (if 0 \<le> x then \<lfloor>x\<rfloor> else \<lceil>x\<rceil>)"

text \<open>\<^verbatim>\<open>needle in name\<close> on strings.\<close>

fun starts_with :: "string \<Rightarrow> string \<Rightarrow> bool" where
  "starts_with [] name = True"
| "starts_with (c # cs) [] = False"
| "starts_with (c # cs) (d # ds) = (c = d \<and> starts_with cs ds)"

fun contains :: "string \<Rightarrow> string \<Rightarrow> bool" where
  "contains needle [] = (needle = [])"
| "contains needle (d # ds) = (starts_with needle (d # ds) \<or> contains needle ds)"

record volume_analysis =
  orb_total_volume :: int
  orb_avg_volume_per_min :: int
  volume_ratio_vs_day_avg :: rat
  high_volume :: bool

text \<open>
  The entry of one period with enough data. Prices are rounded to two decimals when the
  entry is stored, as in the source; \<open>orb_end_time\<close> is kept as the time stamp it is
  formatted from.
\<close>

record orb_levels =
  orb_high :: rat
  orb_low :: rat
  orb_range :: rat
  orb_midpoint :: rat
  orb_current_price :: rat
  orb_position :: position
  distance_from_range_pct :: rat
  breakout_confirmed :: bool
  breakout_type :: "breakout_kind option"
  orb_volume_analysis :: volume_analysis
  targets :: "(string \<times> rat) list"
  targets_hit :: "string list"
  orb_end_time :: int

datatype orb_entry = InsufficientData nat | Levels orb_levels

text \<open>
  The breakout check on the closes after the opening-range window: the result is
  \<open>(breakout_confirmed, breakout_type)\<close>. The bearish test is the \<^verbatim>\<open>elif\<close> of the
  bullish one.
\<close>

definition check_breakout ::
  "rat list \<Rightarrow> rat \<Rightarrow> rat \<Rightarrow> position \<Rightarrow> bool \<times> breakout_kind option" where
  "check_breakout post_closes o_high o_low pos =
     (if post_closes \<noteq> [] then
        (if list_ex (\<lambda>c. c > o_high * (1001 / 1000)) post_closes then
           (let bars_above = length (filter (\<lambda>c. c > o_high) post_closes)
            in if bars_above \<ge> 3 \<and> pos = AboveRange then (True, Some BullishBreakout)
               else (False, None))
         else if list_ex (\<lambda>c. c < o_low * (999 / 1000)) post_closes then
           (let bars_below = length (filter (\<lambda>c. c < o_low) post_closes)
            in if bars_below \<ge> 3 \<and> pos = BelowRange then (True, Some BearishBreakout)
               else (False, None))
         else (False, None))
      else (False, None))"

definition extension_targets :: "rat \<Rightarrow> rat \<Rightarrow> rat \<Rightarrow> (string \<times> rat) list" where
  "extension_targets o_high o_low o_range =
     [(''bull_0.5x'', o_high + o_range * (1 / 2)),
      (''bull_1x'', o_high + o_range),
      (''bull_1.5x'', o_high + o_range * (3 / 2)),
      (''bull_2x'', o_high + o_range * 2),
      (''bear_0.5x'', o_low - o_range * (1 / 2)),
      (''bear_1x'', o_low - o_range),
      (''bear_1.5x'', o_low - o_range * (3 / 2)),
      (''bear_2x'', o_low - o_range * 2)]"

definition target_hit :: "rat \<Rightarrow> string \<times> rat \<Rightarrow> bool" where
  "target_hit current_price t =
     (case t of (target_name, target_level) \<Rightarrow>
        if contains ''bull'' target_name \<and> current_price \<ge> target_level then True
        else if contains ''bear'' target_name \<and> current_price \<le> target_level then True
        else False)"

text \<open>
  The body of the loop over the requested periods, for one period (in minutes; time stamps
  are in seconds). \<open>None\<close> stands for the exception that the source raises, and its
  caller turns into an error result, when the window holds no row at all (a period that
  is not positive): the mean of an empty column is not a number and \<^verbatim>\<open>int\<close> refuses it.
  Prices are taken to be positive, so that the percentage distance divides by a non-zero
  level.
\<close>

definition analyze_period ::
  "int \<Rightarrow> bar list \<Rightarrow> rat \<Rightarrow> rat \<Rightarrow> int \<Rightarrow> orb_entry option" where
  "analyze_period market_open_time df_rth current_price avg_volume_per_min period =
     (let end_time = market_open_time + 60 * period;
          orb_data = filter (\<lambda>b. datetime b \<le> end_time) df_rth
      in if int (length orb_data) < period then Some (InsufficientData (length orb_data))
         else if orb_data = [] then None
         else
           (let o_high = col_max (map high orb_data);
                o_low = col_min (map low orb_data);
                o_range = o_high - o_low;
                o_midpoint = (o_high + o_low) / 2;
                orb_volume = sum_list (map volume orb_data);
                orb_avg_volume = mean (map volume orb_data);
                volume_ratio =
                  (if avg_volume_per_min > 0 then orb_avg_volume / avg_volume_per_min else 0);
                pos_dist =
                  (if current_price > o_high
                   then (AboveRange, (current_price - o_high) / o_high * 100)
                   else if current_price < o_low
                   then (BelowRange, (o_low - current_price) / o_low * 100)
                   else (InsideRange, 0));
                post_orb_data = filter (\<lambda>b. datetime b > end_time) df_rth;
                breakout = check_breakout (map close post_orb_data) o_high o_low (fst pos_dist);
                tgts = extension_targets o_high o_low o_range
            in Some (Levels
                 \<lparr>orb_high = round_nd o_high 2,
                  orb_low = round_nd o_low 2,
                  orb_range = round_nd o_range 2,
                  orb_midpoint = round_nd o_midpoint 2,
                  orb_current_price = round_nd current_price 2,
                  orb_position = fst pos_dist,
                  distance_from_range_pct = round_nd (snd pos_dist) 2,
                  breakout_confirmed = fst breakout,
                  breakout_type = snd breakout,
                  orb_volume_analysis =
                    \<lparr>orb_total_volume = trunc orb_volume,
                     orb_avg_volume_per_min = trunc orb_avg_volume,
                     volume_ratio_vs_day_avg = round_nd volume_ratio 2,
                     high_volume = (volume_ratio > 12 / 10)\<rparr>,
                  targets = map (\<lambda>(k, v). (k, round_nd v 2)) tgts,
                  targets_hit = map fst (filter (target_hit current_price) tgts),
                  orb_end_time = end_time\<rparr>)))"

text \<open>
  The loop of \<^verbatim>\<open>financial_orb_analysis\<close> over the periods, on the rows of the regular
  session: the dict \<^verbatim>\<open>orb_analysis\<close>, keyed by the period (the source's key is the period
  followed by \<^verbatim>\<open>min\<close>), or \<open>None\<close> when a period raises.
\<close>

fun orb_periods_loop ::
  "int \<Rightarrow> bar list \<Rightarrow> rat \<Rightarrow> rat \<Rightarrow> (int \<times> orb_entry) list \<Rightarrow> int list \<Rightarrow>
   (int \<times> orb_entry) list option" where
  "orb_periods_loop market_open_time df_rth current_price avg orb_analysis [] = Some orb_analysis"
| "orb_periods_loop market_open_time df_rth current_price avg orb_analysis (period # periods) =
     (case analyze_period market_open_time df_rth current_price avg period of
        None \<Rightarrow> None
      | Some entry \<Rightarrow>
          orb_periods_loop market_open_time df_rth current_price avg
            (dict_set orb_analysis period entry) periods)"

text \<open>
  \<^verbatim>\<open>detect_orb_squeeze\<close>. The valid periods and their ranges are collected in the dict's
  order, sorted as pairs, and compared.
\<close>

record squeeze_report =
  squeeze_detected :: bool
  contracting_ranges :: bool
  compression_ratio :: rat
  range_progression :: "(int \<times> rat) list"
  squeeze_interpretation :: string

datatype squeeze_result = TooFewPeriods | Report squeeze_report

definition valid_ranges :: "(int \<times> orb_entry) list \<Rightarrow> (int \<times> rat) list" where
  "valid_ranges orb_data =
     List.map_filter
       (\<lambda>(period, data). case data of InsufficientData n \<Rightarrow> None
                          | Levels l \<Rightarrow> Some (period, orb_range l))
       orb_data"

definition detect_orb_squeeze :: "(int \<times> orb_entry) list \<Rightarrow> squeeze_result" where
  "detect_orb_squeeze orb_data =
     (let collected = valid_ranges orb_data
      in if length collected < 2 then TooFewPeriods
         else
           (let sorted_data = sort collected;
                ranges = map snd sorted_data;
                contracting = list_all (\<lambda>i. ranges ! i \<le> ranges ! (i - 1)) [1..<length ranges];
                ratio = (if ranges ! 0 > 0 then last ranges / ranges ! 0 else 1);
                squeeze = (contracting \<and> ratio < 7 / 10)
            in Report
                 \<lparr>squeeze_detected = squeeze,
                  contracting_ranges = contracting,
                  compression_ratio = round_nd ratio 2,
                  range_progression = map (\<lambda>(p, r). (p, round_nd r 2)) sorted_data,
                  squeeze_interpretation =
                    (if squeeze then ''Potential explosive move ahead''
                     else ''Normal range expansion'')\<rparr>))"

section \<open>Volume profile (technical\_analysis.py)\<close>

text \<open>
  \<^verbatim>\<open>np.linspace(start, stop, num)\<close>: \<open>num\<close> evenly spaced points, the last one being
  \<open>stop\<close>.
\<close>

definition linspace :: "rat \<Rightarrow> rat \<Rightarrow> nat \<Rightarrow> rat list" where
  "linspace start stop num =
     map (\<lambda>k. start + of_nat k * ((stop - start) / of_nat (num - 1))) [0..<num]"

text \<open>
  \<^verbatim>\<open>np.searchsorted(a, v, side)\<close> on a sorted array: the number of entries below \<open>v\<close>
  (left), or not above \<open>v\<close> (right).
\<close>

definition searchsorted_left :: "rat list \<Rightarrow> rat \<Rightarrow> nat" where
  "searchsorted_left a v = length (takeWhile (\<lambda>e. e < v) a)"

definition searchsorted_right :: "rat list \<Rightarrow> rat \<Rightarrow> nat" where
  "searchsorted_right a v = length (takeWhile (\<lambda>e. e \<le> v) a)"

text \<open>The edges of the price bins of a frame.\<close>

definition price_bins :: "bar list \<Rightarrow> nat \<Rightarrow> rat list" where
  "price_bins df num_bins =
     linspace (col_min (map low df)) (col_max (map high df)) (num_bins + 1)"

text \<open>
  One round of the inner loop: the share of the bar for the bin index \<open>bin_idx\<close>, stored
  under the bin's rounded midpoint when the index is the index of a bin.
\<close>

definition add_share :: "rat list \<Rightarrow> nat \<Rightarrow> rat \<Rightarrow> (rat \<times> rat) list \<Rightarrow> nat \<Rightarrow> (rat \<times> rat) list" where
  "add_share bins price_precision volume_per_bin volume_by_price bin_idx =
     (if bin_idx < length bins - 1 then
        (let bin_price = round_nd ((bins ! bin_idx + bins ! (bin_idx + 1)) / 2) price_precision
         in dict_set volume_by_price bin_price
              (dict_get volume_by_price bin_price 0 + volume_per_bin))
      else volume_by_price)"

text \<open>One round of the loop over the rows: the dict \<^verbatim>\<open>volume_by_price\<close> is the state.\<close>

definition add_bar :: "rat list \<Rightarrow> nat \<Rightarrow> (rat \<times> rat) list \<Rightarrow> bar \<Rightarrow> (rat \<times> rat) list" where
  "add_bar bins price_precision volume_by_price row =
     (let low_bin_idx = searchsorted_left bins (low row);
          high_bin_idx = searchsorted_right bins (high row)
      in if high_bin_idx > low_bin_idx then
           (let volume_per_bin = volume row / of_nat (high_bin_idx - low_bin_idx)
            in foldl (add_share bins price_precision volume_per_bin) volume_by_price
                 [low_bin_idx..<high_bin_idx])
         else volume_by_price)"

text \<open>
  The loop that grows the value area from the point of control. The state is
  \<open>(accumulated_volume, value_area_prices, left_idx, right_idx)\<close>; \<open>left_idx\<close> runs down
  to \<open>-1\<close>.
\<close>

function value_area_loop ::
  "(rat \<times> rat) list \<Rightarrow> rat list \<Rightarrow> rat \<Rightarrow> rat \<times> rat list \<times> int \<times> nat \<Rightarrow>
   rat \<times> rat list \<times> int \<times> nat" where
  "value_area_loop volume_by_price all_prices_sorted value_area_volume
       (accumulated_volume, value_area_prices, left_idx, right_idx) =
     (if accumulated_volume < value_area_volume then
        (let left_volume =
               (if left_idx \<ge> 0
                then dict_get volume_by_price (all_prices_sorted ! nat left_idx) 0 else 0);
             right_volume =
               (if right_idx < length all_prices_sorted
                then dict_get volume_by_price (all_prices_sorted ! right_idx) 0 else 0)
         in if left_volume \<ge> right_volume \<and> left_idx \<ge> 0 then
              value_area_loop volume_by_price all_prices_sorted value_area_volume
                (accumulated_volume + left_volume,
                 value_area_prices @ [all_prices_sorted ! nat left_idx],
                 left_idx - 1, right_idx)
            else if right_idx < length all_prices_sorted then
              value_area_loop volume_by_price all_prices_sorted value_area_volume
                (accumulated_volume + right_volume,
                 value_area_prices @ [all_prices_sorted ! right_idx],
                 left_idx, right_idx + 1)
            else (accumulated_volume, value_area_prices, left_idx, right_idx))
      else (accumulated_volume, value_area_prices, left_idx, right_idx))"
  by pat_completeness auto
termination
  by (relation "measure (\<lambda>(vbp, aps, target, acc, vaps, l, r). nat (l + 1) + (length aps - r))")
    auto

declare value_area_loop.simps [simp del]

text \<open>High and low volume nodes.\<close>

record volume_node =
  node_start :: rat
  node_end :: rat
  node_volume :: rat

text \<open>
  The search for a node within reach of the price: the first such node is widened to the
  price and keeps the volume that \<open>pick\<close> prefers; \<open>None\<close> when no node is within reach.
\<close>

fun merge_into ::
  "(rat \<Rightarrow> rat \<Rightarrow> rat) \<Rightarrow> rat \<Rightarrow> rat \<Rightarrow> rat \<Rightarrow> volume_node list \<Rightarrow> volume_node list option" where
  "merge_into pick reach price vol [] = None"
| "merge_into pick reach price vol (n # ns) =
     (if \<bar>price - node_start n\<bar> \<le> reach then
        Some (n\<lparr>node_end := max (node_end n) price,
                node_start := min (node_start n) price,
                node_volume := pick (node_volume n) vol\<rparr> # ns)
      else map_option ((#) n) (merge_into pick reach price vol ns))"

definition add_node ::
  "(rat \<Rightarrow> rat \<Rightarrow> rat) \<Rightarrow> rat \<Rightarrow> nat \<Rightarrow> volume_node list \<Rightarrow> rat \<times> rat \<Rightarrow> volume_node list" where
  "add_node pick bin_width price_precision nodes pv =
     (case pv of (price, vol) \<Rightarrow>
        (case merge_into pick (bin_width * (3 / 2)) price vol nodes of
           Some merged \<Rightarrow> merged
         | None \<Rightarrow>
             nodes @ [\<lparr>node_start = round_nd (price - bin_width / 2) price_precision,
                       node_end = round_nd (price + bin_width / 2) price_precision,
                       node_volume = vol\<rparr>]))"

definition high_volume_nodes_of ::
  "rat \<Rightarrow> nat \<Rightarrow> (rat \<times> rat) list \<Rightarrow> volume_node list" where
  "high_volume_nodes_of bin_width price_precision sorted_prices =
     (let n = length sorted_prices;
          hvn_threshold =
            (if n > 5 then snd (sorted_prices ! (n div 5)) else snd (last sorted_prices))
      in foldl (\<lambda>hvns pv. if snd pv \<ge> hvn_threshold
                             then add_node max bin_width price_precision hvns pv else hvns)
           [] sorted_prices)"

definition low_volume_nodes_of ::
  "rat \<Rightarrow> nat \<Rightarrow> (rat \<times> rat) list \<Rightarrow> volume_node list" where
  "low_volume_nodes_of bin_width price_precision sorted_prices =
     (let n = length sorted_prices;
          lvn_threshold =
            (if n > 5 then snd (sorted_prices ! (n * 4 div 5)) else snd (sorted_prices ! 0))
      in foldl (\<lambda>lvns pv. if snd pv \<le> lvn_threshold
                             then add_node min bin_width price_precision lvns pv else lvns)
           [] (rev sorted_prices))"

record volume_profile =
  point_of_control :: rat
  value_area_high :: rat
  value_area_low :: rat
  high_volume_nodes :: "volume_node list"
  low_volume_nodes :: "volume_node list"
  total_volume :: rat
  value_area_volume :: rat
  value_area_percentage :: rat

text \<open>\<^verbatim>\<open>xs.index(x)\<close> for an \<open>x\<close> that occurs in \<open>xs\<close>.\<close>

definition index_of :: "'a \<Rightarrow> 'a list \<Rightarrow> nat" where
  "index_of x xs = length (takeWhile (\<lambda>y. y \<noteq> x) xs)"

text \<open>
  The second half of \<^verbatim>\<open>calculate_volume_profile\<close>, from the filled dict on. The sort by
  volume is stable and descending. With a total volume of zero the source's percentage is
  not a number; the model's division gives 0 there.
\<close>

definition profile_of :: "rat \<Rightarrow> nat \<Rightarrow> (rat \<times> rat) list \<Rightarrow> volume_profile" where
  "profile_of bin_width price_precision volume_by_price =
     (let sorted_prices = sort_key (\<lambda>pv. - snd pv) volume_by_price;
          poc = fst (hd sorted_prices);
          total = sum_list (map snd sorted_prices);
          all_prices_sorted = sort (map fst volume_by_price);
          poc_price_idx = index_of poc all_prices_sorted
      in case value_area_loop volume_by_price all_prices_sorted (total * (7 / 10))
                (dict_get volume_by_price poc 0, [poc],
                 int poc_price_idx - 1, poc_price_idx + 1) of
           (accumulated_volume, value_area_prices, left_idx, right_idx) \<Rightarrow>
             \<lparr>point_of_control = round_nd poc price_precision,
              value_area_high = round_nd (col_max value_area_prices) price_precision,
              value_area_low = round_nd (col_min value_area_prices) price_precision,
              high_volume_nodes =
                take 5 (high_volume_nodes_of bin_width price_precision sorted_prices),
              low_volume_nodes =
                take 5 (low_volume_nodes_of bin_width price_precision sorted_prices),
              total_volume = total,
              value_area_volume = accumulated_volume,
              value_area_percentage =
                round_nd (accumulated_volume / total * 100) 2\<rparr>)"

text \<open>
  \<^verbatim>\<open>calculate_volume_profile\<close> on a frame that has the columns \<^verbatim>\<open>high\<close>, \<^verbatim>\<open>low\<close> and
  \<^verbatim>\<open>volume\<close>. \<open>None\<close> is the source's \<^verbatim>\<open>None\<close>: an empty frame, a price range without
  width, no bin at all (the index error on the second edge is caught), or an empty dict.
\<close>

definition calculate_volume_profile :: "bar list \<Rightarrow> nat \<Rightarrow> nat \<Rightarrow> volume_profile option" where
  "calculate_volume_profile df num_bins price_precision =
     (if df = [] then None
      else
        (let price_min = col_min (map low df);
             price_max = col_max (map high df)
         in if price_min \<ge> price_max then None
            else if num_bins = 0 then None
            else
              (let bins = price_bins df num_bins;
                   bin_width = bins ! 1 - bins ! 0;
                   volume_by_price = foldl (add_bar bins price_precision) [] df
               in if volume_by_price = [] then None
                  else Some (profile_of bin_width price_precision volume_by_price))))"

section \<open>Technical zones (technical\_zones\_tool.py)\<close>

datatype status = Success | PartialSuccess | Warning | Error

datatype zone_type = SUPPORT | RESISTANCE | NEUTRAL | TARGET_UPSIDE | TARGET_DOWNSIDE

datatype timeframe_key = TF_1m | TF_5m | TF_1d

text \<open>
  A zone carries a single level or a range. Its name and its source are strings that the
  source formats from the time frame, the bar interval and numbers; the model keeps what
  they are formatted from.
\<close>

datatype zone_span = Level rat | Range rat rat

datatype zone_name =
    POC timeframe_key | VAH timeframe_key | VAL timeframe_key
  | HVN timeframe_key rat | LVN timeframe_key rat
  | Fib string
  | PlusATR timeframe_key | MinusATR timeframe_key
  | PreviousDayHigh | PreviousDayLow

datatype zone_source = VolumeProfileBars | FibonacciBars nat | ATRCalculation | DailyBar

record zone =
  z_type :: zone_type
  z_name :: zone_name
  z_span :: zone_span
  z_source :: zone_source

text \<open>
  \<^verbatim>\<open>calculate_fibonacci_levels\<close> with the default lookback of 50 bars, the only one the
  tool uses. The table holds each level's name, the number that \<^verbatim>\<open>float\<close> reads from the
  name, and its price.
\<close>

definition fib_levels :: "rat \<Rightarrow> rat \<Rightarrow> (string \<times> rat \<times> rat) list" where
  "fib_levels swing_high swing_low =
     (let price_range = swing_high - swing_low
      in [(''0.0'', 0, swing_low),
          (''0.236'', 236 / 1000, swing_low + price_range * (236 / 1000)),
          (''0.382'', 382 / 1000, swing_low + price_range * (382 / 1000)),
          (''0.5'', 1 / 2, swing_low + price_range * (1 / 2)),
          (''0.618'', 618 / 1000, swing_low + price_range * (618 / 1000)),
          (''0.786'', 786 / 1000, swing_low + price_range * (786 / 1000)),
          (''1.0'', 1, swing_high),
          (''1.272'', 1272 / 1000, swing_high + price_range * (272 / 1000)),
          (''1.618'', 1618 / 1000, swing_high + price_range * (618 / 1000))])"

definition calculate_fibonacci_levels :: "bar list \<Rightarrow> nat \<Rightarrow> zone list" where
  "calculate_fibonacci_levels df price_precision =
     (let lookback_periods = 50
      in if df = [] \<or> length df < lookback_periods then []
         else
           (let recent_df = tail (int lookback_periods) df;
                swing_high = col_max (map high recent_df);
                swing_low = col_min (map low recent_df)
            in if swing_high \<le> swing_low then []
               else
                 (let current_price = close (last df)
                  in map (\<lambda>(level_name, level_value, level_price).
                            \<lparr>z_type =
                               (if level_value \<le> 1
                                then (if current_price > level_price then SUPPORT else RESISTANCE)
                                else TARGET_UPSIDE),
                             z_name = Fib level_name,
                             z_span = Level (round_nd level_price price_precision),
                             z_source = FibonacciBars lookback_periods\<rparr>)
                       (fib_levels swing_high swing_low))))"

text \<open>
  What the three fetches of one time frame return. \<open>None\<close> is the fetcher's \<^verbatim>\<open>None\<close>, a
  hard fetch error; an empty list is a frame without rows. An item of the ATR feed is
  the number that \<^verbatim>\<open>float\<close> reads from its \<^verbatim>\<open>atr\<close> field, or \<open>None\<close> when the field is
  missing or cannot be read. The previous-day frame is fetched for the intraday time
  frames only.
\<close>

record frame_fetches =
  df_bars :: "bar list option"
  atr_data :: "rat option list option"
  prev_day_df :: "bar list option"

text \<open>
  The running state of one time frame: the zone list, \<^verbatim>\<open>frame_status\<close>,
  \<^verbatim>\<open>frame_message\<close> and \<^verbatim>\<open>frame_fetch_failed\<close>.
\<close>

record frame_state =
  zones :: "zone list"
  frame_status :: status
  frame_message :: string
  frame_fetch_failed :: bool

definition degrade :: "status \<Rightarrow> status \<Rightarrow> status" where
  "degrade to current = (if current = Success then to else current)"

text \<open>
  The zones of a computed volume profile. \<open>price_banding_width\<close> is the configured
  \<^verbatim>\<open>PRICE_BANDING_WIDTH\<close>; a width of zero leaves the value-area ranges without width.
\<close>

definition volume_profile_zones :: "rat \<Rightarrow> timeframe_key \<Rightarrow> volume_profile \<Rightarrow> zone list" where
  "volume_profile_zones price_banding_width tf vp =
     [\<lparr>z_type = NEUTRAL, z_name = POC tf, z_span = Level (point_of_control vp),
       z_source = VolumeProfileBars\<rparr>,
      \<lparr>z_type = RESISTANCE, z_name = VAH tf,
       z_span = Range (value_area_high vp)
                  (if price_banding_width \<noteq> 0
                   then value_area_high vp + price_banding_width / 2
                   else value_area_high vp),
       z_source = VolumeProfileBars\<rparr>,
      \<lparr>z_type = SUPPORT, z_name = VAL tf,
       z_span = Range (if price_banding_width \<noteq> 0
                       then value_area_low vp - price_banding_width / 2
                       else value_area_low vp)
                  (value_area_low vp),
       z_source = VolumeProfileBars\<rparr>] @
     map (\<lambda>hvn. \<lparr>z_type = (if node_start hvn > point_of_control vp then RESISTANCE else SUPPORT),
                  z_name = HVN tf (round_nd (node_start hvn) 2),
                  z_span = Range (node_start hvn) (node_end hvn),
                  z_source = VolumeProfileBars\<rparr>)
       (high_volume_nodes vp) @
     map (\<lambda>lvn. \<lparr>z_type = NEUTRAL,
                  z_name = LVN tf (round_nd (node_start lvn) 2),
                  z_span = Range (node_start lvn) (node_end lvn),
                  z_source = VolumeProfileBars\<rparr>)
       (low_volume_nodes vp)"

text \<open>Steps 1 and 2: the bar fetch, the volume profile and the Fibonacci zones.\<close>

definition bars_step :: "rat \<Rightarrow> timeframe_key \<Rightarrow> bar list option \<Rightarrow> frame_state" where
  "bars_step price_banding_width tf bars =
     (let st0 = \<lparr>zones = [], frame_status = Success, frame_message = ''Zones generated.'',
                 frame_fetch_failed = False\<rparr>
      in case bars of
           None \<Rightarrow> st0\<lparr>frame_fetch_failed := True\<rparr>
         | Some df \<Rightarrow>
             if df = [] then
               st0\<lparr>frame_status := degrade Warning (frame_status st0),
                   frame_message := ''No bar data available.''\<rparr>
             else
               (let st1 =
                      (case calculate_volume_profile df 20 2 of
                         None \<Rightarrow>
                           st0\<lparr>frame_status := degrade PartialSuccess (frame_status st0),
                               frame_message := ''VP calculation failed.''\<rparr>
                       | Some vp \<Rightarrow>
                           st0\<lparr>zones := zones st0 @ volume_profile_zones price_banding_width tf vp\<rparr>);
                    fib_zones_list = calculate_fibonacci_levels df 2
                in if fib_zones_list = [] then
                     st1\<lparr>frame_status := degrade Warning (frame_status st1),
                         frame_message :=
                           (if frame_message st1 = ''Zones generated.''
                            then ''VP zones generated, no Fib zones.''
                            else if frame_message st1 = ''VP calculation failed.''
                            then frame_message st1
                            else frame_message st1 @ '' No Fib zones.'')\<rparr>
                   else
                     st1\<lparr>zones := zones st1 @ fib_zones_list,
                         frame_message :=
                           (if frame_status st1 = Success then ''VP and Fib zones generated.''
                            else frame_message st1)\<rparr>))"

text \<open>
  Step 3: the ATR feed. The result is the state and \<^verbatim>\<open>atr_value\<close>. The last item is
  read; a value that cannot be read raises in the source and is caught.
\<close>

definition atr_step :: "rat option list option \<Rightarrow> frame_state \<Rightarrow> frame_state \<times> rat option" where
  "atr_step atr st =
     (case atr of
        None \<Rightarrow> (st\<lparr>frame_fetch_failed := True\<rparr>, None)
      | Some items \<Rightarrow>
          if items = [] then (st, None)
          else
            (case last items of
               Some atr_value \<Rightarrow> (st, Some atr_value)
             | None \<Rightarrow>
                 (st\<lparr>frame_status := degrade PartialSuccess (frame_status st),
                     frame_message :=
                       (if frame_message st = ''Zones generated.''
                        then ''VP/Fib zones generated, ATR parse error.''
                        else frame_message st @ '' ATR parse error.'')\<rparr>,
                  None)))"

text \<open>Step 4: the ATR extensions around the last close of the bars.\<close>

definition atr_zones :: "timeframe_key \<Rightarrow> bar list option \<Rightarrow> rat option \<Rightarrow> zone list" where
  "atr_zones tf bars atr_value =
     (case (atr_value, bars) of
        (Some atr, Some df) \<Rightarrow>
          if df = [] then []
          else
            (let base_price = close (last df)
             in [\<lparr>z_type = TARGET_UPSIDE, z_name = PlusATR tf,
                   z_span = Level (round_nd (base_price + atr) 2), z_source = ATRCalculation\<rparr>,
                  \<lparr>z_type = TARGET_DOWNSIDE, z_name = MinusATR tf,
                   z_span = Level (round_nd (base_price - atr) 2), z_source = ATRCalculation\<rparr>])
      | _ \<Rightarrow> [])"

text \<open>
  Step 4, the previous day's high and low, taken from the bar before the last one of the
  daily frame; a frame with fewer than two rows gives no zone.
\<close>

definition prev_day_zones :: "bar list \<Rightarrow> zone list" where
  "prev_day_zones prev_df =
     (if prev_df = [] \<or> length prev_df < 2 then []
      else
        (let prev_day_bar = prev_df ! (length prev_df - 2)
         in [\<lparr>z_type = RESISTANCE, z_name = PreviousDayHigh,
               z_span = Level (round_nd (high prev_day_bar) 2), z_source = DailyBar\<rparr>,
              \<lparr>z_type = SUPPORT, z_name = PreviousDayLow,
               z_span = Level (round_nd (low prev_day_bar) 2), z_source = DailyBar\<rparr>]))"

text \<open>The daily frame is fetched for the time frames 1m and 5m only.\<close>

definition prev_day_step :: "timeframe_key \<Rightarrow> bar list option \<Rightarrow> frame_state \<Rightarrow> frame_state" where
  "prev_day_step tf prev st =
     (if tf = TF_1m \<or> tf = TF_5m then
        (case prev of
           None \<Rightarrow> st\<lparr>frame_fetch_failed := True\<rparr>
         | Some prev_df \<Rightarrow> st\<lparr>zones := zones st @ prev_day_zones prev_df\<rparr>)
      else st)"

text \<open>The entry stored for a time frame.\<close>

record frame_result =
  technical_zones :: "zone list"
  final_status :: status
  final_message :: string

definition join_comma :: "string list \<Rightarrow> string" where
  "join_comma parts = (case parts of [] \<Rightarrow> [] | p # ps \<Rightarrow> foldl (\<lambda>acc q. acc @ '', '' @ q) p ps)"

definition store_frame :: "frame_state \<Rightarrow> rat option \<Rightarrow> frame_result" where
  "store_frame st atr_value =
     (if frame_fetch_failed st then
        \<lparr>technical_zones = zones st, final_status = Error,
         final_message = ''Critical fetch error for one or more data sources.''\<rparr>
      else if zones st = [] then
        \<lparr>technical_zones = zones st, final_status = Warning,
         final_message = ''No technical zones could be generated for this timeframe.''\<rparr>
      else
        \<lparr>technical_zones = zones st, final_status = frame_status st,
         final_message =
           (if frame_status st = PartialSuccess then
              (let partial_messages =
                     (if contains ''VP calculation failed.'' (frame_message st)
                      then [''VP failed.''] else []) @
                     (if contains ''No Fib zones.'' (frame_message st)
                      then [''No Fib zones.''] else []) @
                     (if contains ''ATR error.'' (frame_message st) \<or>
                         (contains ''ATR parse error.'' (frame_message st) \<and> atr_value = None)
                      then [''ATR failed.''] else [])
               in if partial_messages \<noteq> []
                  then ''Some zones generated. Issues: '' @ join_comma partial_messages
                  else ''Zones generated successfully with minor issues.'')
            else ''Zones generated successfully.'')\<rparr>)"

text \<open>The body of the loop of \<^verbatim>\<open>financial_technical_zones\<close> for one time frame.\<close>

definition process_timeframe :: "rat \<Rightarrow> timeframe_key \<Rightarrow> frame_fetches \<Rightarrow> frame_result" where
  "process_timeframe price_banding_width tf fetched =
     (let st1 = bars_step price_banding_width tf (df_bars fetched)
      in case atr_step (atr_data fetched) st1 of
           (st2, atr_value) \<Rightarrow>
             (let st3 = st2\<lparr>zones := zones st2 @ atr_zones tf (df_bars fetched) atr_value\<rparr>;
                  st4 = prev_day_step tf (prev_day_df fetched) st3
              in store_frame st4 atr_value))"

text \<open>The roll-up of the frame statuses into the overall status.\<close>

definition roll_up :: "status \<Rightarrow> status \<Rightarrow> status" where
  "roll_up overall_status frame =
     (if frame = Error then Error
      else if (frame = PartialSuccess \<or> frame = Warning) \<and> overall_status = Success
      then PartialSuccess
      else overall_status)"

definition overall_status_of :: "status list \<Rightarrow> status" where
  "overall_status_of frames = foldl roll_up Success frames"

section \<open>Predicates and example data of the proofs\<close>

text \<open>
  What the scan over a gap's price history keeps for any bars: without a test both
  extremes are unset; with a test both are set and each lies inside the gap.
\<close>

definition tests_in :: "rat \<Rightarrow> rat \<Rightarrow> nat \<times> rat option \<times> rat option \<Rightarrow> bool" where
  "tests_in g_low g_high st =
     (case st of
        (tests, None, None) \<Rightarrow> tests = 0
      | (tests, Some l, Some h) \<Rightarrow>
          0 < tests \<and> g_low \<le> l \<and> l \<le> g_high \<and> g_low \<le> h \<and> h \<le> g_high
      | _ \<Rightarrow> False)"

text \<open>
  What the scan keeps on bars whose low is not above their high: the extremes are, in
  addition, ordered.
\<close>

definition tests_ok :: "rat \<Rightarrow> rat \<Rightarrow> nat \<times> rat option \<times> rat option \<Rightarrow> bool" where
  "tests_ok g_low g_high st =
     (case st of
        (tests, None, None) \<Rightarrow> tests = 0
      | (tests, Some l, Some h) \<Rightarrow> 0 < tests \<and> g_low \<le> l \<and> l \<le> h \<and> h \<le> g_high
      | _ \<Rightarrow> False)"

text \<open>How the scan state moves: the tested range only widens.\<close>

definition tests_grow ::
  "nat \<times> rat option \<times> rat option \<Rightarrow> nat \<times> rat option \<times> rat option \<Rightarrow> bool" where
  "tests_grow st st' =
     (case (st, st') of
        ((t, None, None), _) \<Rightarrow> True
      | ((t, Some l, Some h), (t', Some l', Some h')) \<Rightarrow> l' \<le> l \<and> h \<le> h'
      | _ \<Rightarrow> False)"

text \<open>The fill percentage as a function of the scan state.\<close>

definition fill_of :: "rat \<Rightarrow> rat \<Rightarrow> nat \<times> rat option \<times> rat option \<Rightarrow> rat" where
  "fill_of g_low g_high st =
     (case st of (t, Some l, Some h) \<Rightarrow> min ((h - l) / (g_high - g_low) * 100) 100 | _ \<Rightarrow> 0)"

text \<open>
  An opening-range entry with the range \<open>[100, 100 + r]\<close> and the price inside it, for
  the examples.
\<close>

definition sample_levels :: "rat \<Rightarrow> orb_levels" where
  "sample_levels r =
     \<lparr>orb_high = 100 + r, orb_low = 100, orb_range = r, orb_midpoint = 100 + r / 2,
      orb_current_price = 100, orb_position = InsideRange, distance_from_range_pct = 0,
      breakout_confirmed = False, breakout_type = None,
      orb_volume_analysis =
        \<lparr>orb_total_volume = 5000, orb_avg_volume_per_min = 1000,
         volume_ratio_vs_day_avg = 1, high_volume = False\<rparr>,
      targets = [], targets_hit = [], orb_end_time = 300\<rparr>"

text \<open>A volume dict is well formed: its keys are distinct and no volume is negative.\<close>

definition dict_ok :: "(rat \<times> rat) list \<Rightarrow> bool" where
  "dict_ok m = (distinct (map fst m) \<and> (\<forall>kv \<in> set m. 0 \<le> snd kv))"

text \<open>The volume of the bins with indices from \<open>a\<close> up to \<open>b - 1\<close>, in price order.\<close>

definition seg_sum :: "(rat \<times> rat) list \<Rightarrow> rat list \<Rightarrow> nat \<Rightarrow> nat \<Rightarrow> rat" where
  "seg_sum m aps a b = sum_list (map (\<lambda>i. dict_get m (aps ! i) 0) [a..<b])"

text \<open>
  The invariant of the value-area loop: the accumulated volume is the volume of the bins
  strictly between \<open>left_idx\<close> and \<open>right_idx\<close>, and the list of prices starts with the
  point of control.
\<close>

definition va_inv ::
  "(rat \<times> rat) list \<Rightarrow> rat list \<Rightarrow> rat \<Rightarrow> rat \<times> rat list \<times> int \<times> nat \<Rightarrow> bool" where
  "va_inv m aps poc st =
     (case st of (acc, vaps, l, r) \<Rightarrow>
        - 1 \<le> l \<and> nat (l + 1) < r \<and> r \<le> length aps \<and>
        acc = seg_sum m aps (nat (l + 1)) r \<and> vaps \<noteq> [] \<and> hd vaps = poc)"

text \<open>How the loop ends: the target is reached, or both sides are exhausted.\<close>

definition va_done :: "rat \<Rightarrow> nat \<Rightarrow> rat \<times> rat list \<times> int \<times> nat \<Rightarrow> bool" where
  "va_done target n st =
     (case st of (acc, vaps, l, r) \<Rightarrow> target \<le> acc \<or> (l = - 1 \<and> r = n))"

text \<open>
  The profile of the frame with the one bar from 100 to 110 and a volume of 2100, in 20
  bins, for the examples.
\<close>

definition single_bar_profile :: volume_profile where
  "single_bar_profile =
     \<lparr>point_of_control = 401 / 4, value_area_high = 427 / 4, value_area_low = 401 / 4,
      high_volume_nodes =
        [\<lparr>node_start = 100, node_end = 403 / 4, node_volume = 100\<rparr>,
         \<lparr>node_start = 101, node_end = 407 / 4, node_volume = 100\<rparr>,
         \<lparr>node_start = 102, node_end = 411 / 4, node_volume = 100\<rparr>,
         \<lparr>node_start = 103, node_end = 415 / 4, node_volume = 100\<rparr>,
         \<lparr>node_start = 104, node_end = 419 / 4, node_volume = 100\<rparr>],
      low_volume_nodes =
        [\<lparr>node_start = 401 / 4, node_end = 110, node_volume = 100\<rparr>],
      total_volume = 2000, value_area_volume = 1400, value_area_percentage = 70\<rparr>"

section \<open>Fair value gaps: the scan of a gap's history\<close>

lemma tests_in_step:
  assumes "tests_in g_low g_high st" and "g_low \<le> g_high"
  shows "tests_in g_low g_high (test_candle g_low g_high st c)"
  using assms
  by (cases st) (auto simp: tests_in_def test_candle_def Let_def split: option.splits)

lemma tests_in_foldl:
  assumes "tests_in g_low g_high st" and "g_low \<le> g_high"
  shows "tests_in g_low g_high (foldl (test_candle g_low g_high) st cs)"
  using assms
proof (induction cs arbitrary: st)
  case Nil
  then show ?case by simp
next
  case (Cons c cs)
  then show ?case by (simp add: tests_in_step)
qed

lemma tests_in_scan:
  assumes "g_low \<le> g_high"
  shows "tests_in g_low g_high (scan_tests g_low g_high cs)"
  unfolding scan_tests_def
  by (rule tests_in_foldl) (use assms in \<open>simp_all add: tests_in_def\<close>)

lemma tests_ok_step:
  assumes "tests_ok g_low g_high st" and "low c \<le> high c" and "g_low \<le> g_high"
  shows "tests_ok g_low g_high (test_candle g_low g_high st c)"
  using assms
  by (cases st) (auto simp: tests_ok_def test_candle_def Let_def split: option.splits)

lemma tests_ok_foldl:
  assumes "tests_ok g_low g_high st" and "\<forall>c \<in> set cs. low c \<le> high c" and "g_low \<le> g_high"
  shows "tests_ok g_low g_high (foldl (test_candle g_low g_high) st cs)"
  using assms
proof (induction cs arbitrary: st)
  case Nil
  then show ?case by simp
next
  case (Cons c cs)
  then show ?case by (simp add: tests_ok_step)
qed

lemma tests_ok_scan:
  assumes "\<forall>c \<in> set cs. low c \<le> high c" and "g_low \<le> g_high"
  shows "tests_ok g_low g_high (scan_tests g_low g_high cs)"
  unfolding scan_tests_def
  by (rule tests_ok_foldl) (use assms in \<open>simp_all add: tests_ok_def\<close>)

lemma tests_grow_step:
  assumes "tests_ok g_low g_high st"
  shows "tests_grow st (test_candle g_low g_high st c)"
  using assms
  by (cases st) (auto simp: tests_ok_def tests_grow_def test_candle_def Let_def split: option.splits)

lemma tests_grow_trans:
  "tests_ok a b st' \<Longrightarrow> tests_grow st st' \<Longrightarrow> tests_grow st' st'' \<Longrightarrow> tests_grow st st''"
  by (cases st; cases st'; cases st'') (auto simp: tests_grow_def tests_ok_def split: option.splits)

lemma tests_grow_foldl:
  assumes "tests_ok g_low g_high st" and "\<forall>c \<in> set cs. low c \<le> high c" and "g_low \<le> g_high"
  shows "tests_grow st (foldl (test_candle g_low g_high) st cs)"
  using assms
proof (induction cs arbitrary: st)
  case Nil
  then show ?case by (cases st) (auto simp: tests_grow_def tests_ok_def split: option.splits)
next
  case (Cons c cs)
  have ok: "tests_ok g_low g_high (test_candle g_low g_high st c)"
    using Cons.prems by (simp add: tests_ok_step)
  have "tests_grow (test_candle g_low g_high st c)
          (foldl (test_candle g_low g_high) (test_candle g_low g_high st c) cs)"
    using Cons.IH [OF ok] Cons.prems by simp
  with tests_grow_step [OF Cons.prems(1), of c] ok show ?case
    by (auto intro: tests_grow_trans)
qed

lemma analyze_fields [simp]:
  "gap_low (analyze_gap_interaction g hist p) = gap_low g"
  "gap_high (analyze_gap_interaction g hist p) = gap_high g"
  "gap_size (analyze_gap_interaction g hist p) = gap_size g"
  "gap_midpoint (analyze_gap_interaction g hist p) = gap_midpoint g"
  "gap_index (analyze_gap_interaction g hist p) = gap_index g"
  "gap_type (analyze_gap_interaction g hist p) = gap_type g"
  by (auto simp: analyze_gap_interaction_def Let_def split: prod.splits option.splits)

text \<open>What the analysis leaves in a fresh gap, in terms of the scan.\<close>

lemma analyze_new_gap:
  assumes "scan_tests g_low g_high hist = (t, lo, hi)" and "g_low \<le> g_high"
  shows "times_tested (analyze_gap_interaction (new_gap i k tf g_high g_low cs vs) hist p) = t"
    and "lowest_test (analyze_gap_interaction (new_gap i k tf g_high g_low cs vs) hist p) = lo"
    and "highest_test (analyze_gap_interaction (new_gap i k tf g_high g_low cs vs) hist p) = hi"
    and "filled_percentage (analyze_gap_interaction (new_gap i k tf g_high g_low cs vs) hist p) =
          (case (lo, hi) of (Some l, Some h) \<Rightarrow> min ((h - l) / (g_high - g_low) * 100) 100 | _ \<Rightarrow> 0)"
proof -
  have e: "hist = [] \<Longrightarrow> t = 0 \<and> lo = None \<and> hi = None"
    using assms(1) by (simp add: scan_tests_def)
  have inv: "tests_in g_low g_high (t, lo, hi)"
    using tests_in_scan [OF assms(2), of hist] assms(1) by simp
  show "times_tested (analyze_gap_interaction (new_gap i k tf g_high g_low cs vs) hist p) = t"
    using assms(1) e
    by (auto simp: analyze_gap_interaction_def new_gap_def Let_def split: option.splits)
  show "lowest_test (analyze_gap_interaction (new_gap i k tf g_high g_low cs vs) hist p) = lo"
    using assms(1) e
    by (auto simp: analyze_gap_interaction_def new_gap_def Let_def split: option.splits)
  show "highest_test (analyze_gap_interaction (new_gap i k tf g_high g_low cs vs) hist p) = hi"
    using assms(1) e
    by (auto simp: analyze_gap_interaction_def new_gap_def Let_def split: option.splits)
  show "filled_percentage (analyze_gap_interaction (new_gap i k tf g_high g_low cs vs) hist p) =
          (case (lo, hi) of (Some l, Some h) \<Rightarrow> min ((h - l) / (g_high - g_low) * 100) 100 | _ \<Rightarrow> 0)"
    using assms(1) e inv
    by (auto simp: analyze_gap_interaction_def new_gap_def Let_def tests_in_def split: option.splits)
qed

lemma fill_of_range:
  assumes "tests_ok g_low g_high st" and "g_low < g_high"
  shows "0 \<le> fill_of g_low g_high st \<and> fill_of g_low g_high st \<le> 100"
  using assms
  by (cases st) (auto simp: fill_of_def tests_ok_def split: option.splits)

lemma fill_of_mono:
  assumes "tests_ok g_low g_high st" and "tests_ok g_low g_high st'" and "tests_grow st st'"
    and "g_low < g_high"
  shows "fill_of g_low g_high st \<le> fill_of g_low g_high st'"
proof (cases st)
  case (fields t lo hi)
  show ?thesis
  proof (cases lo)
    case None
    then have "fill_of g_low g_high st = 0"
      using fields by (simp add: fill_of_def)
    then show ?thesis using fill_of_range [OF assms(2,4)] by simp
  next
    case (Some l)
    then obtain h where hi: "hi = Some h"
      using assms(1) fields by (auto simp: tests_ok_def split: option.splits)
    obtain t' l' h' where st': "st' = (t', Some l', Some h')" and le: "l' \<le> l" "h \<le> h'"
      using assms(3) fields Some hi
      by (cases st') (auto simp: tests_grow_def split: option.splits)
    have "(h - l) / (g_high - g_low) \<le> (h' - l') / (g_high - g_low)"
      using le assms(4) by (intro divide_right_mono) auto
    then have "(h - l) / (g_high - g_low) * 100 \<le> (h' - l') / (g_high - g_low) * 100"
      by (rule mult_right_mono) simp
    then have "min ((h - l) / (g_high - g_low) * 100) 100 \<le> min ((h' - l') / (g_high - g_low) * 100) 100"
      by (rule min.mono) simp
    then show ?thesis
      using fields Some hi st' by (simp only: fill_of_def prod.case option.case)
  qed
qed

lemma gap_bounds_lt: "gap_bounds c1 c3 = Some (g_high, g_low, k) \<Longrightarrow> g_low < g_high"
  by (auto simp: gap_bounds_def split: if_splits)

lemma gap_atE:
  assumes "gap_at mgp dfa tf p i = Some g"
  obtains g_high g_low k where
    "gap_bounds (dfa ! (i - 2)) (dfa ! i) = Some (g_high, g_low, k)"
    and "\<not> gap_too_small mgp g_high g_low"
    and "g = analyze_gap_interaction
               (new_gap i k tf g_high g_low
                  (snapshot (dfa ! (i - 2)), snapshot (dfa ! (i - 1)), snapshot (dfa ! i))
                  (volume_context dfa (dfa ! (i - 2)) (dfa ! (i - 1)) (dfa ! i)))
               (drop (i + 1) dfa) p"
  using assms
  by (auto simp: gap_at_def Let_def split: if_splits option.splits prod.splits)

lemma new_gap_fields [simp]:
  "gap_low (new_gap i k tf g_high g_low cs vs) = g_low"
  "gap_high (new_gap i k tf g_high g_low cs vs) = g_high"
  "gap_index (new_gap i k tf g_high g_low cs vs) = i"
  "gap_type (new_gap i k tf g_high g_low cs vs) = k"
  by (simp_all add: new_gap_def)

lemma fill_of_le_100: "fill_of g_low g_high st \<le> 100"
  by (cases st) (auto simp: fill_of_def split: option.splits)

lemma analyze_new_gap_fill:
  assumes "g_low < g_high"
  shows "filled_percentage (analyze_gap_interaction (new_gap i k tf g_high g_low cs vs) hist p)
         = fill_of g_low g_high (scan_tests g_low g_high hist)"
proof -
  obtain t lo hi where s: "scan_tests g_low g_high hist = (t, lo, hi)"
    by (cases "scan_tests g_low g_high hist")
  have le: "g_low \<le> g_high" using assms by simp
  have inv: "tests_in g_low g_high (t, lo, hi)"
    using tests_in_scan [OF le, of hist] s by simp
  show ?thesis
    using analyze_new_gap(4) [OF s le, of i k tf cs vs p] inv s
    by (auto simp: fill_of_def tests_in_def split: option.splits)
qed

lemma scan_tests_append:
  "scan_tests g_low g_high (h1 @ h2) =
     foldl (test_candle g_low g_high) (scan_tests g_low g_high h1) h2"
  by (simp add: scan_tests_def)

lemma fill_extend:
  assumes "\<forall>c \<in> set (h1 @ h2). low c \<le> high c" and "g_low < g_high"
  shows "fill_of g_low g_high (scan_tests g_low g_high h1)
         \<le> fill_of g_low g_high (scan_tests g_low g_high (h1 @ h2))"
proof -
  have ok1: "tests_ok g_low g_high (scan_tests g_low g_high h1)"
    using assms by (intro tests_ok_scan) auto
  have ok2: "tests_ok g_low g_high (scan_tests g_low g_high (h1 @ h2))"
    using assms by (intro tests_ok_scan) auto
  have "tests_grow (scan_tests g_low g_high h1) (scan_tests g_low g_high (h1 @ h2))"
    unfolding scan_tests_append using ok1 assms by (intro tests_grow_foldl) auto
  then show ?thesis
    using ok1 ok2 assms(2) by (intro fill_of_mono)
qed

lemma detect_fvgs_mem:
  "g \<in> set (detect_fvgs mgp df tf p lb) \<longleftrightarrow>
     3 \<le> length df \<and>
     (\<exists>i. 2 \<le> i \<and> i < length (tail (min lb (int (length df))) df) \<and>
          gap_at mgp (tail (min lb (int (length df))) df) tf p i = Some g)"
  by (force simp: detect_fvgs_def Let_def List.map_filter_def image_iff)

lemma tail_all: "int (length df) \<le> n \<Longrightarrow> tail (min n (int (length df))) df = df"
  by (simp add: tail_def min_def)

lemma set_tail: "set (tail n df) \<subseteq> set df"
  by (auto simp: tail_def dest: in_set_dropD)

lemma gap_at_extend:
  assumes "gap_at mgp dfa tf p i = Some g" and "2 \<le> i" and "i < length dfa"
    and wf: "\<forall>c \<in> set (dfa @ ext). low c \<le> high c"
  shows "\<exists>g'. gap_at mgp (dfa @ ext) tf p' i = Some g' \<and>
           gap_index g' = gap_index g \<and> gap_type g' = gap_type g \<and>
           gap_low g' = gap_low g \<and> gap_high g' = gap_high g \<and>
           filled_percentage g \<le> filled_percentage g'"
proof -
  let ?c3 = "dfa ! i" and ?c1 = "dfa ! (i - 2)"
  have nth: "(dfa @ ext) ! i = dfa ! i" "(dfa @ ext) ! (i - 1) = dfa ! (i - 1)"
    "(dfa @ ext) ! (i - 2) = dfa ! (i - 2)"
    using assms(3) by (simp_all add: nth_append)
  have dr: "drop (i + 1) (dfa @ ext) = drop (i + 1) dfa @ ext"
    using assms(3) by simp
  have wf1: "\<forall>c \<in> set (drop (i + 1) dfa @ ext). low c \<le> high c"
    using wf by (auto dest: in_set_dropD)
  from assms(1) obtain g_high g_low k where
    b: "gap_bounds (dfa ! (i - 2)) (dfa ! i) = Some (g_high, g_low, k)"
    and ns: "\<not> gap_too_small mgp g_high g_low"
    and g: "g = analyze_gap_interaction
               (new_gap i k tf g_high g_low
                  (snapshot (dfa ! (i - 2)), snapshot (dfa ! (i - 1)), snapshot (dfa ! i))
                  (volume_context dfa (dfa ! (i - 2)) (dfa ! (i - 1)) (dfa ! i)))
               (drop (i + 1) dfa) p"
    by (rule gap_atE)
  have lt: "g_low < g_high" using b by (rule gap_bounds_lt)
  let ?g' = "analyze_gap_interaction
               (new_gap i k tf g_high g_low
                  (snapshot (dfa ! (i - 2)), snapshot (dfa ! (i - 1)), snapshot (dfa ! i))
                  (volume_context (dfa @ ext) (dfa ! (i - 2)) (dfa ! (i - 1)) (dfa ! i)))
               (drop (i + 1) dfa @ ext) p'"
  have "gap_at mgp (dfa @ ext) tf p' i = Some ?g'"
    unfolding gap_at_def Let_def nth dr using b ns by simp
  moreover have "filled_percentage g \<le> filled_percentage ?g'"
    unfolding g analyze_new_gap_fill [OF lt]
    by (rule fill_extend [OF wf1 lt])
  ultimately show ?thesis
    unfolding g by simp
qed

section \<open>Fair value gaps: the claims\<close>

lemma scenario_three_bars:
  "map (\<lambda>g. (gap_type g, gap_low g, gap_high g, gap_size g, gap_midpoint g,
             times_tested g, lowest_test g, highest_test g, filled_percentage g))
     (detect_fvgs (1 / 10)
        [\<lparr>datetime = t1, b_open = o1, high = 100, low = 98, close = c1, volume = 1000\<rparr>,
         \<lparr>datetime = t2, b_open = o2, high = 101, low = 99, close = c2, volume = 500\<rparr>,
         \<lparr>datetime = t3, b_open = o3, high = 104, low = 102, close = c3, volume = 1000\<rparr>]
        tf current_price 100)
   = [(Bullish, 100, 102, 2, 101, 0, None, None, 0)]"
  by (simp add: detect_fvgs_def tail_def upt_rec [of 2] List.map_filter_simps gap_at_def Let_def
        gap_bounds_def gap_too_small_def new_gap_def analyze_gap_interaction_def)

lemma scenario_four_bars:
  "map (\<lambda>g. (gap_type g, gap_low g, gap_high g, gap_size g, gap_midpoint g,
             times_tested g, lowest_test g, highest_test g, filled_percentage g))
     (detect_fvgs (1 / 10)
        [\<lparr>datetime = t1, b_open = o1, high = 100, low = 98, close = c1, volume = 1000\<rparr>,
         \<lparr>datetime = t2, b_open = o2, high = 101, low = 99, close = c2, volume = 500\<rparr>,
         \<lparr>datetime = t3, b_open = o3, high = 104, low = 102, close = c3, volume = 1000\<rparr>,
         \<lparr>datetime = t4, b_open = o4, high = 103, low = 201 / 2, close = c4, volume = v4\<rparr>]
        tf current_price 100)
   = [(Bullish, 100, 102, 2, 101, 1, Some (201 / 2), Some 102, 75)]"
  by (simp add: detect_fvgs_def tail_def upt_rec [of 2] upt_rec [of 3] List.map_filter_simps
        gap_at_def Let_def gap_bounds_def gap_too_small_def
        new_gap_def analyze_gap_interaction_def scan_tests_def test_candle_def)

lemma map_singletonD: "map f xs = [v] \<Longrightarrow> hd xs \<in> set xs \<and> f (hd xs) = v"
  by (cases xs) auto

text \<open>
  Claim C4. On the three bars (high 100, low 98), (high 101, low 99), (high 104, low 102)
  with volumes 1000, 500, 1000 and a minimum gap percentage of 0.1, the detection returns
  exactly one gap: bullish, from 100 to 102, of size 2 and midpoint 101. With a fourth bar
  (high 103, low 100.5) that gap has been tested once, between 100.5 and 102, and is
  filled to 75 percent. The opens, closes, time stamps, the fourth volume, the time frame
  and the current price are arbitrary; the lookback is the default 100.
\<close>

theorem fvg_scenario_bullish_gap:
  "map (\<lambda>g. (gap_type g, gap_low g, gap_high g, gap_size g, gap_midpoint g))
     (detect_fvgs (1 / 10)
        [\<lparr>datetime = t1, b_open = o1, high = 100, low = 98, close = c1, volume = 1000\<rparr>,
         \<lparr>datetime = t2, b_open = o2, high = 101, low = 99, close = c2, volume = 500\<rparr>,
         \<lparr>datetime = t3, b_open = o3, high = 104, low = 102, close = c3, volume = 1000\<rparr>]
        tf current_price 100)
   = [(Bullish, 100, 102, 2, 101)] \<and>
   map (\<lambda>g. (gap_type g, gap_low g, gap_high g, gap_size g, gap_midpoint g,
             times_tested g, lowest_test g, highest_test g, filled_percentage g))
     (detect_fvgs (1 / 10)
        [\<lparr>datetime = t1, b_open = o1, high = 100, low = 98, close = c1, volume = 1000\<rparr>,
         \<lparr>datetime = t2, b_open = o2, high = 101, low = 99, close = c2, volume = 500\<rparr>,
         \<lparr>datetime = t3, b_open = o3, high = 104, low = 102, close = c3, volume = 1000\<rparr>,
         \<lparr>datetime = t4, b_open = o4, high = 103, low = 201 / 2, close = c4, volume = v4\<rparr>]
        tf current_price' 100)
   = [(Bullish, 100, 102, 2, 101, 1, Some (201 / 2), Some 102, 75)]"
proof
  have "map ((\<lambda>(k, gl, gh, gs, gm, r). (k, gl, gh, gs, gm)) \<circ>
             (\<lambda>g. (gap_type g, gap_low g, gap_high g, gap_size g, gap_midpoint g,
                    times_tested g, lowest_test g, highest_test g, filled_percentage g)))
     (detect_fvgs (1 / 10)
        [\<lparr>datetime = t1, b_open = o1, high = 100, low = 98, close = c1, volume = 1000\<rparr>,
         \<lparr>datetime = t2, b_open = o2, high = 101, low = 99, close = c2, volume = 500\<rparr>,
         \<lparr>datetime = t3, b_open = o3, high = 104, low = 102, close = c3, volume = 1000\<rparr>]
        tf current_price 100)
   = [(Bullish, 100, 102, 2, 101)]"
    unfolding map_map [symmetric] scenario_three_bars by simp
  then show "map (\<lambda>g. (gap_type g, gap_low g, gap_high g, gap_size g, gap_midpoint g))
     (detect_fvgs (1 / 10)
        [\<lparr>datetime = t1, b_open = o1, high = 100, low = 98, close = c1, volume = 1000\<rparr>,
         \<lparr>datetime = t2, b_open = o2, high = 101, low = 99, close = c2, volume = 500\<rparr>,
         \<lparr>datetime = t3, b_open = o3, high = 104, low = 102, close = c3, volume = 1000\<rparr>]
        tf current_price 100)
   = [(Bullish, 100, 102, 2, 101)]"
    by (simp add: comp_def)
qed (rule scenario_four_bars)

text \<open>
  Claim C10, as stated, fails on the order of the two extremes: the scan clamps a bar's
  low and its high to the gap one by one and never compares them. On the three bars of
  the scenario above followed by a bar with low 101 and high 100.5, the one gap, from 100
  to 102, has been tested once, and its \<open>lowest_test\<close>, 101, is above its
  \<open>highest_test\<close>, 100.5.
\<close>

theorem test_extremes_order_counterexample:
  "map (\<lambda>g. (gap_low g, gap_high g, times_tested g, lowest_test g, highest_test g))
     (detect_fvgs (1 / 10)
        [\<lparr>datetime = 0, b_open = 99, high = 100, low = 98, close = 99, volume = 1000\<rparr>,
         \<lparr>datetime = 60, b_open = 99, high = 101, low = 99, close = 100, volume = 500\<rparr>,
         \<lparr>datetime = 120, b_open = 102, high = 104, low = 102, close = 103, volume = 1000\<rparr>,
         \<lparr>datetime = 180, b_open = 101, high = 201 / 2, low = 101, close = 101, volume = 800\<rparr>]
        ''1m'' 101 100)
   = [(100, 102, 1, Some 101, Some (201 / 2))] \<and>
   (201 / 2 :: rat) < 101"
  by (simp add: detect_fvgs_def tail_def upt_rec [of 2] upt_rec [of 3] List.map_filter_simps
        gap_at_def Let_def gap_bounds_def gap_too_small_def
        new_gap_def analyze_gap_interaction_def scan_tests_def test_candle_def)

text \<open>
  Claim C10, amended. For every gap of the detection pass, on any bars: a gap that has
  been tested has both test extremes set, and each of them lies between \<open>gap_low\<close> and
  \<open>gap_high\<close>; a gap that has not been tested has neither extreme set and a filled
  percentage of 0. The order \<open>lowest_test \<le> highest_test\<close> holds when no bar after the
  gap's third candle, within the analysed frame, has its low above its high.
\<close>

theorem test_extremes_within_gap:
  assumes "g \<in> set (detect_fvgs mgp df tf p lb)"
  shows "(0 < times_tested g \<longrightarrow>
            (\<exists>l h. lowest_test g = Some l \<and> highest_test g = Some h \<and>
                   gap_low g \<le> l \<and> l \<le> gap_high g \<and>
                   gap_low g \<le> h \<and> h \<le> gap_high g \<and>
                   ((\<forall>b \<in> set (drop (gap_index g + 1) (tail (min lb (int (length df))) df)).
                       low b \<le> high b) \<longrightarrow> l \<le> h))) \<and>
         (times_tested g = 0 \<longrightarrow>
            lowest_test g = None \<and> highest_test g = None \<and> filled_percentage g = 0)"
proof -
  let ?dfa = "tail (min lb (int (length df))) df"
  from assms obtain i where i: "gap_at mgp ?dfa tf p i = Some g"
    unfolding detect_fvgs_mem by blast
  from i obtain g_high g_low k where
    b: "gap_bounds (?dfa ! (i - 2)) (?dfa ! i) = Some (g_high, g_low, k)"
    and g: "g = analyze_gap_interaction
               (new_gap i k tf g_high g_low
                  (snapshot (?dfa ! (i - 2)), snapshot (?dfa ! (i - 1)), snapshot (?dfa ! i))
                  (volume_context ?dfa (?dfa ! (i - 2)) (?dfa ! (i - 1)) (?dfa ! i)))
               (drop (i + 1) ?dfa) p"
    by (rule gap_atE)
  have lt: "g_low < g_high" using b by (rule gap_bounds_lt)
  then have le: "g_low \<le> g_high" by simp
  obtain t lo hi where s: "scan_tests g_low g_high (drop (i + 1) ?dfa) = (t, lo, hi)"
    by (cases "scan_tests g_low g_high (drop (i + 1) ?dfa)")
  have inv: "tests_in g_low g_high (t, lo, hi)"
    using tests_in_scan [OF le, of "drop (i + 1) ?dfa"] s by simp
  have ord: "tests_ok g_low g_high (t, lo, hi)"
    if "\<forall>b \<in> set (drop (i + 1) ?dfa). low b \<le> high b"
    using tests_ok_scan [OF that le] s by simp
  note f = analyze_new_gap [OF s le, of i k tf
      "(snapshot (?dfa ! (i - 2)), snapshot (?dfa ! (i - 1)), snapshot (?dfa ! i))"
      "volume_context ?dfa (?dfa ! (i - 2)) (?dfa ! (i - 1)) (?dfa ! i)" p, folded g]
  have gl: "gap_low g = g_low" and gh: "gap_high g = g_high" and gi: "gap_index g = i"
    unfolding g by simp_all
  have tested: "\<exists>l h. lo = Some l \<and> hi = Some h \<and>
                   g_low \<le> l \<and> l \<le> g_high \<and> g_low \<le> h \<and> h \<le> g_high \<and>
                   ((\<forall>b \<in> set (drop (i + 1) ?dfa). low b \<le> high b) \<longrightarrow> l \<le> h)"
    if "0 < t"
  proof -
    from inv that obtain l h where lh: "lo = Some l" "hi = Some h"
      and within: "g_low \<le> l" "l \<le> g_high" "g_low \<le> h" "h \<le> g_high"
      by (auto simp: tests_in_def split: option.splits)
    have "l \<le> h" if "\<forall>b \<in> set (drop (i + 1) ?dfa). low b \<le> high b"
      using ord [OF that] lh by (simp add: tests_ok_def)
    with lh within show ?thesis by blast
  qed
  have untested: "lo = None \<and> hi = None \<and>
      (case (lo, hi) of (Some l, Some h) \<Rightarrow> min ((h - l) / (g_high - g_low) * 100) 100 | _ \<Rightarrow> 0) = 0"
    if "t = 0"
    using inv that by (auto simp: tests_in_def split: option.splits)
  show ?thesis
    unfolding f gl gh gi using tested untested by blast
qed

theorem test_extremes_within_gap_witness:
  "(\<exists>g. g \<in> set (detect_fvgs (1 / 10)
            [\<lparr>datetime = 0, b_open = 99, high = 100, low = 98, close = 99, volume = 1000\<rparr>,
             \<lparr>datetime = 60, b_open = 99, high = 101, low = 99, close = 100, volume = 500\<rparr>,
             \<lparr>datetime = 120, b_open = 102, high = 104, low = 102, close = 103, volume = 1000\<rparr>,
             \<lparr>datetime = 180, b_open = 103, high = 103, low = 201 / 2, close = 101, volume = 800\<rparr>]
            ''1m'' 101 100) \<and>
        list_all (\<lambda>b. low b \<le> high b)
          (drop (gap_index g + 1)
             (tail (min 100 (int (length
            [\<lparr>datetime = 0, b_open = 99, high = 100, low = 98, close = 99, volume = 1000\<rparr>,
             \<lparr>datetime = 60, b_open = 99, high = 101, low = 99, close = 100, volume = 500\<rparr>,
             \<lparr>datetime = 120, b_open = 102, high = 104, low = 102, close = 103, volume = 1000\<rparr>,
             \<lparr>datetime = 180, b_open = 103, high = 103, low = 201 / 2, close = 101, volume = 800\<rparr>])))
            [\<lparr>datetime = 0, b_open = 99, high = 100, low = 98, close = 99, volume = 1000\<rparr>,
             \<lparr>datetime = 60, b_open = 99, high = 101, low = 99, close = 100, volume = 500\<rparr>,
             \<lparr>datetime = 120, b_open = 102, high = 104, low = 102, close = 103, volume = 1000\<rparr>,
             \<lparr>datetime = 180, b_open = 103, high = 103, low = 201 / 2, close = 101, volume = 800\<rparr>])) \<and>
        times_tested g = 1 \<and>
        (\<exists>l h. lowest_test g = Some l \<and> highest_test g = Some h \<and>
               gap_low g \<le> l \<and> l \<le> h \<and> h \<le> gap_high g)) \<and>
   (\<exists>g. g \<in> set (detect_fvgs (1 / 10)
            [\<lparr>datetime = 0, b_open = 99, high = 100, low = 98, close = 99, volume = 1000\<rparr>,
             \<lparr>datetime = 60, b_open = 99, high = 101, low = 99, close = 100, volume = 500\<rparr>,
             \<lparr>datetime = 120, b_open = 102, high = 104, low = 102, close = 103, volume = 1000\<rparr>]
            ''1m'' 103 100) \<and>
        times_tested g = 0 \<and>
        lowest_test g = None \<and> highest_test g = None \<and> filled_percentage g = 0)"
proof -
  let ?df3 = "[\<lparr>datetime = 0, b_open = 99, high = 100, low = 98, close = 99, volume = 1000\<rparr>,
       \<lparr>datetime = 60, b_open = 99, high = 101, low = 99, close = 100, volume = 500\<rparr>,
       \<lparr>datetime = 120, b_open = 102, high = 104, low = 102, close = 103, volume = (1000::rat)\<rparr>]"
  let ?df4 = "[\<lparr>datetime = 0, b_open = 99, high = 100, low = 98, close = 99, volume = 1000\<rparr>,
       \<lparr>datetime = 60, b_open = 99, high = 101, low = 99, close = 100, volume = 500\<rparr>,
       \<lparr>datetime = 120, b_open = 102, high = 104, low = 102, close = 103, volume = 1000\<rparr>,
       \<lparr>datetime = 180, b_open = 103, high = 103, low = 201 / 2, close = 101, volume = (800::rat)\<rparr>]"
  let ?g = "hd (detect_fvgs (1 / 10) ?df4 ''1m'' 101 100)"
  let ?g' = "hd (detect_fvgs (1 / 10) ?df3 ''1m'' 103 100)"
  have mem: "?g \<in> set (detect_fvgs (1 / 10) ?df4 ''1m'' 101 100)" and tt: "times_tested ?g = 1"
    using map_singletonD [OF scenario_four_bars
        [of 0 99 99 60 99 100 120 102 103 180 103 101 800 "''1m''" 101]]
    by simp_all
  have mem': "?g' \<in> set (detect_fvgs (1 / 10) ?df3 ''1m'' 103 100)"
    and tt': "times_tested ?g' = 0"
    using map_singletonD [OF scenario_three_bars
        [of 0 99 99 60 99 100 120 102 103 "''1m''" 103]]
    by simp_all
  have wf: "\<forall>b \<in> set ?df4. low b \<le> high b" by simp
  have after: "\<forall>b \<in> set (drop (gap_index ?g + 1) (tail (min 100 (int (length ?df4))) ?df4)).
                 low b \<le> high b"
  proof
    fix b
    assume "b \<in> set (drop (gap_index ?g + 1) (tail (min 100 (int (length ?df4))) ?df4))"
    then have "b \<in> set (tail (min 100 (int (length ?df4))) ?df4)"
      by (rule in_set_dropD)
    then have "b \<in> set ?df4"
      using set_tail [of "min 100 (int (length ?df4))" ?df4] by blast
    with wf show "low b \<le> high b" by blast
  qed
  from test_extremes_within_gap [OF mem] tt after
  have ex: "\<exists>l h. lowest_test ?g = Some l \<and> highest_test ?g = Some h \<and>
               gap_low ?g \<le> l \<and> l \<le> h \<and> h \<le> gap_high ?g"
    by auto
  from test_extremes_within_gap [OF mem'] tt'
  have none: "lowest_test ?g' = None \<and> highest_test ?g' = None \<and> filled_percentage ?g' = 0"
    by simp
  have "list_all (\<lambda>b. low b \<le> high b)
          (drop (gap_index ?g + 1) (tail (min 100 (int (length ?df4))) ?df4))"
    unfolding list_all_iff by (rule after)
  with mem tt ex have first: "\<exists>g. g \<in> set (detect_fvgs (1 / 10) ?df4 ''1m'' 101 100) \<and>
        list_all (\<lambda>b. low b \<le> high b)
          (drop (gap_index g + 1) (tail (min 100 (int (length ?df4))) ?df4)) \<and>
        times_tested g = 1 \<and>
        (\<exists>l h. lowest_test g = Some l \<and> highest_test g = Some h \<and>
               gap_low g \<le> l \<and> l \<le> h \<and> h \<le> gap_high g)"
    by (intro exI [of _ ?g] conjI)
  from mem' tt' none have second: "\<exists>g. g \<in> set (detect_fvgs (1 / 10) ?df3 ''1m'' 103 100) \<and>
        times_tested g = 0 \<and>
        lowest_test g = None \<and> highest_test g = None \<and> filled_percentage g = 0"
    by (intro exI [of _ ?g'] conjI) simp_all
  from first second show ?thesis by (rule conjI)
qed

text \<open>
  On the detection itself: take a series of bars whose low is not above their high, and
  the same series extended by later bars, both within the lookback window. Every gap
  detected in the shorter series is detected in the longer one, at the same candle and
  with the same bounds, and its filled percentage has not decreased.
\<close>

lemma detected_gap_fill_grows:
  assumes "\<forall>b \<in> set (df @ ext). low b \<le> high b"
    and "int (length (df @ ext)) \<le> lb"
    and "g \<in> set (detect_fvgs mgp df tf p lb)"
  shows "0 \<le> filled_percentage g \<and> filled_percentage g \<le> 100 \<and>
         (\<exists>g'. g' \<in> set (detect_fvgs mgp (df @ ext) tf p' lb) \<and>
               gap_index g' = gap_index g \<and> gap_type g' = gap_type g \<and>
               gap_low g' = gap_low g \<and> gap_high g' = gap_high g \<and>
               filled_percentage g \<le> filled_percentage g' \<and>
               0 \<le> filled_percentage g' \<and> filled_percentage g' \<le> 100)"
proof -
  have t1: "tail (min lb (int (length df))) df = df"
    using assms(2) by (intro tail_all) simp
  have t2: "tail (min lb (int (length (df @ ext)))) (df @ ext) = df @ ext"
    using assms(2) by (intro tail_all) simp
  from assms(3) obtain i where len: "3 \<le> length df" and i: "2 \<le> i" "i < length df"
    and gi: "gap_at mgp df tf p i = Some g"
    unfolding detect_fvgs_mem t1 by blast
  from gap_at_extend [OF gi i assms(1), of p'] obtain g' where
    g': "gap_at mgp (df @ ext) tf p' i = Some g'"
    and same: "gap_index g' = gap_index g" "gap_type g' = gap_type g"
      "gap_low g' = gap_low g" "gap_high g' = gap_high g"
    and le: "filled_percentage g \<le> filled_percentage g'"
    by blast
  have mem': "g' \<in> set (detect_fvgs mgp (df @ ext) tf p' lb)"
    unfolding detect_fvgs_mem t2 using len i g' by auto
  have range: "0 \<le> filled_percentage x \<and> filled_percentage x \<le> 100"
    if "gap_at mgp dfa tf q j = Some x" and "\<forall>c \<in> set dfa. low c \<le> high c" for x dfa q j
  proof -
    from that(1) obtain g_high g_low k where
      b: "gap_bounds (dfa ! (j - 2)) (dfa ! j) = Some (g_high, g_low, k)"
      and x: "x = analyze_gap_interaction
                 (new_gap j k tf g_high g_low
                    (snapshot (dfa ! (j - 2)), snapshot (dfa ! (j - 1)), snapshot (dfa ! j))
                    (volume_context dfa (dfa ! (j - 2)) (dfa ! (j - 1)) (dfa ! j)))
                 (drop (j + 1) dfa) q"
      by (rule gap_atE)
    have lt: "g_low < g_high" using b by (rule gap_bounds_lt)
    have wf: "\<forall>c \<in> set (drop (j + 1) dfa). low c \<le> high c"
      using that(2) by (auto dest: in_set_dropD)
    show ?thesis
      unfolding x analyze_new_gap_fill [OF lt]
      by (rule fill_of_range [OF tests_ok_scan [OF wf] lt]) (use lt in simp)
  qed
  have "0 \<le> filled_percentage g \<and> filled_percentage g \<le> 100"
    using range [OF gi] assms(1) by simp
  moreover have "0 \<le> filled_percentage g' \<and> filled_percentage g' \<le> 100"
    using range [OF g' assms(1)] by simp
  ultimately show ?thesis
    using mem' same le by blast
qed

text \<open>
  Claim C6, as stated, fails, in the lower bound and in the monotonicity: the filled
  range is \<open>highest_test - lowest_test\<close>, and a bar whose low is above its high makes
  it negative. For the gap from 100 to 102 of the scenario above, the history of one bar
  above the gap (high 105, low 103) leaves the gap untested, with a filled percentage of
  0; extended by a bar with low 101 and high 100.5 it gives a filled percentage of -25.
\<close>

theorem filled_percentage_decreases_counterexample:
  "gap_bounds
     \<lparr>datetime = 0, b_open = 99, high = 100, low = 98, close = 99, volume = 1000\<rparr>
     \<lparr>datetime = 120, b_open = 102, high = 104, low = 102, close = 103, volume = 1000\<rparr>
     = Some (102, 100, Bullish) \<and>
   filled_percentage
     (analyze_gap_interaction
        (new_gap 2 Bullish ''1m'' 102 100
           (\<lparr>snap_high = 100, snap_low = 98, snap_close = 99\<rparr>,
            \<lparr>snap_high = 101, snap_low = 99, snap_close = 100\<rparr>,
            \<lparr>snap_high = 104, snap_low = 102, snap_close = 103\<rparr>)
           \<lparr>candle_1_volume = 1000, candle_2_volume = 500, candle_3_volume = 1000,
            avg_volume_20_periods = 2500 / 3\<rparr>)
        [\<lparr>datetime = 180, b_open = 104, high = 105, low = 103, close = 104, volume = 800\<rparr>]
        104) = 0 \<and>
   filled_percentage
     (analyze_gap_interaction
        (new_gap 2 Bullish ''1m'' 102 100
           (\<lparr>snap_high = 100, snap_low = 98, snap_close = 99\<rparr>,
            \<lparr>snap_high = 101, snap_low = 99, snap_close = 100\<rparr>,
            \<lparr>snap_high = 104, snap_low = 102, snap_close = 103\<rparr>)
           \<lparr>candle_1_volume = 1000, candle_2_volume = 500, candle_3_volume = 1000,
            avg_volume_20_periods = 2500 / 3\<rparr>)
        ([\<lparr>datetime = 180, b_open = 104, high = 105, low = 103, close = 104, volume = 800\<rparr>] @
         [\<lparr>datetime = 240, b_open = 101, high = 201 / 2, low = 101, close = 101, volume = 800\<rparr>])
        101) = - 25"
  by (simp add: gap_bounds_def analyze_gap_interaction_def new_gap_def scan_tests_def
        test_candle_def)

text \<open>
  Claim C6, amended. Take a gap as the detection builds it (its bounds pass the
  three-candle test, the gap object is fresh) and two histories of bars after the gap, one
  extending the other by later bars. Both filled percentages are at most 100, on any bars.
  When no bar of the longer history has its low above its high, the filled percentage
  computed from the shorter history is at least 0 and the one computed from the longer
  history is at least the one computed from the shorter history, so that both lie between
  0 and 100.
\<close>

theorem filled_percentage_monotone:
  assumes "gap_bounds candle1 candle3 = Some (g_high, g_low, kind)"
  shows "filled_percentage
                (analyze_gap_interaction (new_gap i kind tf g_high g_low cs vs) history p)
           \<le> 100 \<and>
         filled_percentage
                (analyze_gap_interaction (new_gap i kind tf g_high g_low cs vs)
                   (history @ later) p') \<le> 100 \<and>
         ((\<forall>b \<in> set (history @ later). low b \<le> high b) \<longrightarrow>
            0 \<le> filled_percentage
                  (analyze_gap_interaction (new_gap i kind tf g_high g_low cs vs) history p) \<and>
            filled_percentage
                  (analyze_gap_interaction (new_gap i kind tf g_high g_low cs vs) history p)
              \<le> filled_percentage
                  (analyze_gap_interaction (new_gap i kind tf g_high g_low cs vs)
                     (history @ later) p'))"
proof -
  have lt: "g_low < g_high" using assms by (rule gap_bounds_lt)
  have ordered: "0 \<le> fill_of g_low g_high (scan_tests g_low g_high history) \<and>
      fill_of g_low g_high (scan_tests g_low g_high history)
        \<le> fill_of g_low g_high (scan_tests g_low g_high (history @ later))"
    if wf: "\<forall>b \<in> set (history @ later). low b \<le> high b"
  proof -
    have wf1: "\<forall>b \<in> set history. low b \<le> high b" using wf by simp
    have ok1: "tests_ok g_low g_high (scan_tests g_low g_high history)"
      using wf1 lt by (intro tests_ok_scan) simp_all
    show ?thesis
      using fill_of_range [OF ok1 lt] fill_extend [OF wf lt] by simp
  qed
  show ?thesis
    unfolding analyze_new_gap_fill [OF lt]
    using fill_of_le_100 [of g_low g_high "scan_tests g_low g_high history"]
      fill_of_le_100 [of g_low g_high "scan_tests g_low g_high (history @ later)"] ordered
    by blast
qed

theorem filled_percentage_monotone_witness:
  "gap_bounds
     \<lparr>datetime = 0, b_open = 99, high = 100, low = 98, close = 99, volume = 1000\<rparr>
     \<lparr>datetime = 120, b_open = 102, high = 104, low = 102, close = 103, volume = 1000\<rparr>
     = Some (102, 100, Bullish) \<and>
   list_all (\<lambda>b. low b \<le> high b)
     ([\<lparr>datetime = 180, b_open = 103, high = 103, low = 203 / 2, close = 102, volume = 800\<rparr>] @
      [\<lparr>datetime = 240, b_open = 102, high = 103, low = 201 / 2, close = 101, volume = 800\<rparr>]) \<and>
   filled_percentage
     (analyze_gap_interaction
        (new_gap 2 Bullish ''1m'' 102 100
           (\<lparr>snap_high = 100, snap_low = 98, snap_close = 99\<rparr>,
            \<lparr>snap_high = 101, snap_low = 99, snap_close = 100\<rparr>,
            \<lparr>snap_high = 104, snap_low = 102, snap_close = 103\<rparr>)
           \<lparr>candle_1_volume = 1000, candle_2_volume = 500, candle_3_volume = 1000,
            avg_volume_20_periods = 2500 / 3\<rparr>)
        [\<lparr>datetime = 180, b_open = 103, high = 103, low = 203 / 2, close = 102, volume = 800\<rparr>]
        102) = 25 \<and>
   filled_percentage
     (analyze_gap_interaction
        (new_gap 2 Bullish ''1m'' 102 100
           (\<lparr>snap_high = 100, snap_low = 98, snap_close = 99\<rparr>,
            \<lparr>snap_high = 101, snap_low = 99, snap_close = 100\<rparr>,
            \<lparr>snap_high = 104, snap_low = 102, snap_close = 103\<rparr>)
           \<lparr>candle_1_volume = 1000, candle_2_volume = 500, candle_3_volume = 1000,
            avg_volume_20_periods = 2500 / 3\<rparr>)
        ([\<lparr>datetime = 180, b_open = 103, high = 103, low = 203 / 2, close = 102, volume = 800\<rparr>] @
         [\<lparr>datetime = 240, b_open = 102, high = 103, low = 201 / 2, close = 101, volume = 800\<rparr>])
        101) = 75 \<and>
   0 \<le> filled_percentage
     (analyze_gap_interaction
        (new_gap 2 Bullish ''1m'' 102 100
           (\<lparr>snap_high = 100, snap_low = 98, snap_close = 99\<rparr>,
            \<lparr>snap_high = 101, snap_low = 99, snap_close = 100\<rparr>,
            \<lparr>snap_high = 104, snap_low = 102, snap_close = 103\<rparr>)
           \<lparr>candle_1_volume = 1000, candle_2_volume = 500, candle_3_volume = 1000,
            avg_volume_20_periods = 2500 / 3\<rparr>)
        [\<lparr>datetime = 180, b_open = 103, high = 103, low = 203 / 2, close = 102, volume = 800\<rparr>]
        102) \<and>
   filled_percentage
     (analyze_gap_interaction
        (new_gap 2 Bullish ''1m'' 102 100
           (\<lparr>snap_high = 100, snap_low = 98, snap_close = 99\<rparr>,
            \<lparr>snap_high = 101, snap_low = 99, snap_close = 100\<rparr>,
            \<lparr>snap_high = 104, snap_low = 102, snap_close = 103\<rparr>)
           \<lparr>candle_1_volume = 1000, candle_2_volume = 500, candle_3_volume = 1000,
            avg_volume_20_periods = 2500 / 3\<rparr>)
        [\<lparr>datetime = 180, b_open = 103, high = 103, low = 203 / 2, close = 102, volume = 800\<rparr>]
        102)
     \<le> filled_percentage
     (analyze_gap_interaction
        (new_gap 2 Bullish ''1m'' 102 100
           (\<lparr>snap_high = 100, snap_low = 98, snap_close = 99\<rparr>,
            \<lparr>snap_high = 101, snap_low = 99, snap_close = 100\<rparr>,
            \<lparr>snap_high = 104, snap_low = 102, snap_close = 103\<rparr>)
           \<lparr>candle_1_volume = 1000, candle_2_volume = 500, candle_3_volume = 1000,
            avg_volume_20_periods = 2500 / 3\<rparr>)
        ([\<lparr>datetime = 180, b_open = 103, high = 103, low = 203 / 2, close = 102, volume = 800\<rparr>] @
         [\<lparr>datetime = 240, b_open = 102, high = 103, low = 201 / 2, close = 101, volume = 800\<rparr>])
        101) \<and>
   filled_percentage
     (analyze_gap_interaction
        (new_gap 2 Bullish ''1m'' 102 100
           (\<lparr>snap_high = 100, snap_low = 98, snap_close = 99\<rparr>,
            \<lparr>snap_high = 101, snap_low = 99, snap_close = 100\<rparr>,
            \<lparr>snap_high = 104, snap_low = 102, snap_close = 103\<rparr>)
           \<lparr>candle_1_volume = 1000, candle_2_volume = 500, candle_3_volume = 1000,
            avg_volume_20_periods = 2500 / 3\<rparr>)
        ([\<lparr>datetime = 180, b_open = 103, high = 103, low = 203 / 2, close = 102, volume = 800\<rparr>] @
         [\<lparr>datetime = 240, b_open = 102, high = 103, low = 201 / 2, close = 101, volume = 800\<rparr>])
        101) \<le> 100"
proof -
  let ?c1 = "\<lparr>datetime = 0, b_open = 99, high = 100, low = 98, close = 99, volume = (1000::rat)\<rparr>"
  let ?c3 = "\<lparr>datetime = 120, b_open = 102, high = 104, low = 102, close = 103, volume = (1000::rat)\<rparr>"
  let ?history = "[\<lparr>datetime = 180, b_open = 103, high = 103, low = 203 / 2, close = 102, volume = (800::rat)\<rparr>]"
  let ?later = "[\<lparr>datetime = 240, b_open = 102, high = 103, low = 201 / 2, close = 101, volume = (800::rat)\<rparr>]"
  let ?g = "new_gap 2 Bullish ''1m'' 102 100
           (\<lparr>snap_high = 100, snap_low = 98, snap_close = 99\<rparr>,
            \<lparr>snap_high = 101, snap_low = 99, snap_close = 100\<rparr>,
            \<lparr>snap_high = 104, snap_low = 102, snap_close = 103\<rparr>)
           \<lparr>candle_1_volume = 1000, candle_2_volume = 500, candle_3_volume = 1000,
            avg_volume_20_periods = 2500 / 3\<rparr>"
  have b: "gap_bounds ?c1 ?c3 = Some (102, 100, Bullish)"
    by (simp add: gap_bounds_def)
  have wf: "\<forall>b \<in> set (?history @ ?later). low b \<le> high b" by simp
  have e1: "filled_percentage (analyze_gap_interaction ?g ?history 102) = 25"
    by (simp add: analyze_gap_interaction_def new_gap_def scan_tests_def test_candle_def)
  have e2: "filled_percentage (analyze_gap_interaction ?g (?history @ ?later) 101) = 75"
    by (simp add: analyze_gap_interaction_def new_gap_def scan_tests_def test_candle_def)
  have l: "list_all (\<lambda>b. low b \<le> high b) (?history @ ?later)"
    by simp
  from filled_percentage_monotone [OF b, where history = ?history and later = ?later
      and i = 2 and tf = "''1m''" and p = 102 and p' = 101
      and cs = "(\<lparr>snap_high = 100, snap_low = 98, snap_close = 99\<rparr>,
            \<lparr>snap_high = 101, snap_low = 99, snap_close = 100\<rparr>,
            \<lparr>snap_high = 104, snap_low = 102, snap_close = 103\<rparr>)"
      and vs = "\<lparr>candle_1_volume = 1000, candle_2_volume = 500, candle_3_volume = 1000,
            avg_volume_20_periods = 2500 / 3\<rparr>"] wf
  have m: "0 \<le> filled_percentage (analyze_gap_interaction ?g ?history 102) \<and>
      filled_percentage (analyze_gap_interaction ?g ?history 102)
        \<le> filled_percentage (analyze_gap_interaction ?g (?history @ ?later) 101) \<and>
      filled_percentage (analyze_gap_interaction ?g (?history @ ?later) 101) \<le> 100"
    by blast
  from b l e1 e2 m show ?thesis by (intro conjI) blast+
qed

lemma foldl_place_gap:
  "foldl (place_gap p) (a, b) gaps =
     (a @ map (make_gap_info p) (filter (\<lambda>g. gap_low g > p) gaps),
      b @ map (make_gap_info p) (filter (\<lambda>g. \<not> gap_low g > p \<and> gap_high g < p) gaps))"
  by (induction gaps arbitrary: a b) (simp_all add: place_gap_def)

lemma sorted_slice_to:
  "sorted (map f xs) \<Longrightarrow> sorted (map f (slice_to k xs))"
  by (simp add: slice_to_def take_map [symmetric] sorted_wrt_take)

lemma length_slice_to: "0 \<le> k \<Longrightarrow> int (length (slice_to k xs)) \<le> k"
  by (simp add: slice_to_def)

text \<open>
  Claim C7, as stated, fails: the lists are ordered by the entries' \<^verbatim>\<open>'distance'\<close>, which
  is the midpoint distance rounded to two decimals, and the sort is stable. Two gaps above
  a price of 100 with midpoints 101.00390625 and 101.001953125 both have the rounded
  distance 1.0 and stay in their input order, the farther one first.
\<close>

theorem nearest_gaps_order_counterexample:
  "map gi_gap_index (above_current_price (find_nearest_gaps
      [new_gap 1 Bullish ''1m'' (12993 / 128) (201 / 2)
         (\<lparr>snap_high = 201 / 2, snap_low = 100, snap_close = 100\<rparr>,
          \<lparr>snap_high = 102, snap_low = 100, snap_close = 102\<rparr>,
          \<lparr>snap_high = 103, snap_low = 12993 / 128, snap_close = 103\<rparr>)
         \<lparr>candle_1_volume = 10, candle_2_volume = 10, candle_3_volume = 10,
          avg_volume_20_periods = 10\<rparr>,
       new_gap 2 Bullish ''5m'' (25985 / 256) (201 / 2)
         (\<lparr>snap_high = 201 / 2, snap_low = 100, snap_close = 100\<rparr>,
          \<lparr>snap_high = 102, snap_low = 100, snap_close = 102\<rparr>,
          \<lparr>snap_high = 103, snap_low = 25985 / 256, snap_close = 103\<rparr>)
         \<lparr>candle_1_volume = 10, candle_2_volume = 10, candle_3_volume = 10,
          avg_volume_20_periods = 10\<rparr>]
      100 3)) = [1, 2] \<and>
   \<bar>gap_midpoint (new_gap 2 Bullish ''5m'' (25985 / 256) (201 / 2)
         (\<lparr>snap_high = 201 / 2, snap_low = 100, snap_close = 100\<rparr>,
          \<lparr>snap_high = 102, snap_low = 100, snap_close = 102\<rparr>,
          \<lparr>snap_high = 103, snap_low = 25985 / 256, snap_close = 103\<rparr>)
         \<lparr>candle_1_volume = 10, candle_2_volume = 10, candle_3_volume = 10,
          avg_volume_20_periods = 10\<rparr>) - 100\<bar>
   < \<bar>gap_midpoint (new_gap 1 Bullish ''1m'' (12993 / 128) (201 / 2)
         (\<lparr>snap_high = 201 / 2, snap_low = 100, snap_close = 100\<rparr>,
          \<lparr>snap_high = 102, snap_low = 100, snap_close = 102\<rparr>,
          \<lparr>snap_high = 103, snap_low = 12993 / 128, snap_close = 103\<rparr>)
         \<lparr>candle_1_volume = 10, candle_2_volume = 10, candle_3_volume = 10,
          avg_volume_20_periods = 10\<rparr>) - 100\<bar>"
  by code_simp

text \<open>
  Claim C7, amended. For gaps with \<open>gap_low \<le> gap_high\<close> and a non-negative
  \<open>max_gaps\<close>: the list above the price holds the entries of exactly the gaps with
  \<open>gap_low > price\<close>, the list below the entries of exactly the gaps with
  \<open>gap_high < price\<close> (so a gap that straddles the price is in neither), each stably
  sorted by the entry's distance field, which is the midpoint distance rounded to two
  decimals, and cut to its first \<open>max_gaps\<close> entries.
\<close>

theorem nearest_gaps_partition_sorted:
  assumes "\<forall>g \<in> set gaps. gap_low g \<le> gap_high g" and "0 \<le> max_gaps"
  shows "above_current_price (find_nearest_gaps gaps p max_gaps) =
           slice_to max_gaps (sort_key gi_distance
             (map (make_gap_info p) (filter (\<lambda>g. gap_low g > p) gaps))) \<and>
         below_current_price (find_nearest_gaps gaps p max_gaps) =
           slice_to max_gaps (sort_key gi_distance
             (map (make_gap_info p) (filter (\<lambda>g. gap_high g < p) gaps))) \<and>
         sorted (map gi_distance (above_current_price (find_nearest_gaps gaps p max_gaps))) \<and>
         sorted (map gi_distance (below_current_price (find_nearest_gaps gaps p max_gaps))) \<and>
         int (length (above_current_price (find_nearest_gaps gaps p max_gaps))) \<le> max_gaps \<and>
         int (length (below_current_price (find_nearest_gaps gaps p max_gaps))) \<le> max_gaps"
proof -
  have f: "filter (\<lambda>g. \<not> gap_low g > p \<and> gap_high g < p) gaps = filter (\<lambda>g. gap_high g < p) gaps"
    using assms(1) by (intro filter_cong) auto
  have a: "above_current_price (find_nearest_gaps gaps p max_gaps) =
           slice_to max_gaps (sort_key gi_distance
             (map (make_gap_info p) (filter (\<lambda>g. gap_low g > p) gaps)))"
    by (simp add: find_nearest_gaps_def foldl_place_gap)
  have b: "below_current_price (find_nearest_gaps gaps p max_gaps) =
           slice_to max_gaps (sort_key gi_distance
             (map (make_gap_info p) (filter (\<lambda>g. gap_high g < p) gaps)))"
    by (simp add: find_nearest_gaps_def foldl_place_gap f)
  show ?thesis
    unfolding a b using assms(2)
    by (simp add: sorted_slice_to length_slice_to)
qed

theorem nearest_gaps_partition_sorted_witness:
  "list_all (\<lambda>g. gap_low g \<le> gap_high g)
     [new_gap 5 Bullish ''1m'' 104 102
        (\<lparr>snap_high = 102, snap_low = 101, snap_close = 102\<rparr>,
         \<lparr>snap_high = 105, snap_low = 102, snap_close = 105\<rparr>,
         \<lparr>snap_high = 106, snap_low = 104, snap_close = 105\<rparr>)
        \<lparr>candle_1_volume = 10, candle_2_volume = 10, candle_3_volume = 10,
         avg_volume_20_periods = 10\<rparr>] \<and>
   (0::int) \<le> 3 \<and>
   above_current_price (find_nearest_gaps
     [new_gap 5 Bullish ''1m'' 104 102
        (\<lparr>snap_high = 102, snap_low = 101, snap_close = 102\<rparr>,
         \<lparr>snap_high = 105, snap_low = 102, snap_close = 105\<rparr>,
         \<lparr>snap_high = 106, snap_low = 104, snap_close = 105\<rparr>)
        \<lparr>candle_1_volume = 10, candle_2_volume = 10, candle_3_volume = 10,
         avg_volume_20_periods = 10\<rparr>] 100 3) =
     [\<lparr>gi_level = 103, gi_timeframe = ''1m'', gi_gap_index = 5, gi_distance = 3,
       gi_gap_type = Bullish, gi_filled_percentage = 0\<rparr>] \<and>
   below_current_price (find_nearest_gaps
     [new_gap 5 Bullish ''1m'' 104 102
        (\<lparr>snap_high = 102, snap_low = 101, snap_close = 102\<rparr>,
         \<lparr>snap_high = 105, snap_low = 102, snap_close = 105\<rparr>,
         \<lparr>snap_high = 106, snap_low = 104, snap_close = 105\<rparr>)
        \<lparr>candle_1_volume = 10, candle_2_volume = 10, candle_3_volume = 10,
         avg_volume_20_periods = 10\<rparr>] 100 3) = []"
proof -
  let ?gaps = "[new_gap 5 Bullish ''1m'' 104 102
        (\<lparr>snap_high = 102, snap_low = 101, snap_close = 102\<rparr>,
         \<lparr>snap_high = 105, snap_low = 102, snap_close = 105\<rparr>,
         \<lparr>snap_high = 106, snap_low = 104, snap_close = 105\<rparr>)
        \<lparr>candle_1_volume = 10, candle_2_volume = 10, candle_3_volume = 10,
         avg_volume_20_periods = (10::rat)\<rparr>]"
  have wf: "\<forall>g \<in> set ?gaps. gap_low g \<le> gap_high g"
    by (simp add: new_gap_def)
  have k: "(0::int) \<le> 3" by simp
  have info: "make_gap_info 100 (hd ?gaps) =
      \<lparr>gi_level = 103, gi_timeframe = ''1m'', gi_gap_index = 5, gi_distance = 3,
       gi_gap_type = Bullish, gi_filled_percentage = 0\<rparr>"
    by code_simp
  from nearest_gaps_partition_sorted [OF wf k, of 100] info wf show ?thesis
    by (simp add: slice_to_def new_gap_def)
qed

section \<open>Opening range breakout: the claims\<close>

text \<open>
  Claim C5 does not hold of the code: the bearish test is the \<^verbatim>\<open>elif\<close> of the bullish
  one, so one close above the bullish buffer hides a bearish breakout. The session below
  opens with six one-minute bars between 100 and 101; then one bar closes at 101.5 (above
  101 by more than 0.1 percent) and three bars close at 99.5 (below 100 by more than 0.1
  percent), where the current price is. All three conditions of the claim hold on the
  bearish side, and the breakout is not confirmed.
\<close>

theorem bearish_breakout_not_confirmed:
  "(case analyze_period 0
        [\<lparr>datetime = 0, b_open = 201 / 2, high = 101, low = 100, close = 201 / 2, volume = 100\<rparr>,
         \<lparr>datetime = 60, b_open = 201 / 2, high = 101, low = 100, close = 201 / 2, volume = 100\<rparr>,
         \<lparr>datetime = 120, b_open = 201 / 2, high = 101, low = 100, close = 201 / 2, volume = 100\<rparr>,
         \<lparr>datetime = 180, b_open = 201 / 2, high = 101, low = 100, close = 201 / 2, volume = 100\<rparr>,
         \<lparr>datetime = 240, b_open = 201 / 2, high = 101, low = 100, close = 201 / 2, volume = 100\<rparr>,
         \<lparr>datetime = 300, b_open = 201 / 2, high = 101, low = 100, close = 201 / 2, volume = 100\<rparr>,
         \<lparr>datetime = 360, b_open = 203 / 2, high = 102, low = 101, close = 203 / 2, volume = 100\<rparr>,
         \<lparr>datetime = 420, b_open = 199 / 2, high = 101, low = 99, close = 199 / 2, volume = 100\<rparr>,
         \<lparr>datetime = 480, b_open = 199 / 2, high = 100, low = 99, close = 199 / 2, volume = 100\<rparr>,
         \<lparr>datetime = 540, b_open = 199 / 2, high = 100, low = 99, close = 199 / 2, volume = 100\<rparr>]
        (199 / 2) 100 5 of
      Some (Levels l) \<Rightarrow>
        Some (orb_high l, orb_low l, orb_position l, breakout_confirmed l, breakout_type l)
    | _ \<Rightarrow> None) = Some (101, 100, BelowRange, False, None) \<and>
   list_ex (\<lambda>b. datetime b > 300 \<and> close b < 100 * (999 / 1000))
        [\<lparr>datetime = 0, b_open = 201 / 2, high = 101, low = 100, close = 201 / 2, volume = 100\<rparr>,
         \<lparr>datetime = 60, b_open = 201 / 2, high = 101, low = 100, close = 201 / 2, volume = 100\<rparr>,
         \<lparr>datetime = 120, b_open = 201 / 2, high = 101, low = 100, close = 201 / 2, volume = 100\<rparr>,
         \<lparr>datetime = 180, b_open = 201 / 2, high = 101, low = 100, close = 201 / 2, volume = 100\<rparr>,
         \<lparr>datetime = 240, b_open = 201 / 2, high = 101, low = 100, close = 201 / 2, volume = 100\<rparr>,
         \<lparr>datetime = 300, b_open = 201 / 2, high = 101, low = 100, close = 201 / 2, volume = 100\<rparr>,
         \<lparr>datetime = 360, b_open = 203 / 2, high = 102, low = 101, close = 203 / 2, volume = 100\<rparr>,
         \<lparr>datetime = 420, b_open = 199 / 2, high = 101, low = 99, close = 199 / 2, volume = 100\<rparr>,
         \<lparr>datetime = 480, b_open = 199 / 2, high = 100, low = 99, close = 199 / 2, volume = 100\<rparr>,
         \<lparr>datetime = 540, b_open = 199 / 2, high = 100, low = 99, close = 199 / 2, volume = 100\<rparr>] \<and>
   3 \<le> length (filter (\<lambda>b. datetime b > 300 \<and> close b < 100)
        [\<lparr>datetime = 0, b_open = 201 / 2, high = 101, low = 100, close = 201 / 2, volume = 100\<rparr>,
         \<lparr>datetime = 60, b_open = 201 / 2, high = 101, low = 100, close = 201 / 2, volume = 100\<rparr>,
         \<lparr>datetime = 120, b_open = 201 / 2, high = 101, low = 100, close = 201 / 2, volume = 100\<rparr>,
         \<lparr>datetime = 180, b_open = 201 / 2, high = 101, low = 100, close = 201 / 2, volume = 100\<rparr>,
         \<lparr>datetime = 240, b_open = 201 / 2, high = 101, low = 100, close = 201 / 2, volume = 100\<rparr>,
         \<lparr>datetime = 300, b_open = 201 / 2, high = 101, low = 100, close = 201 / 2, volume = 100\<rparr>,
         \<lparr>datetime = 360, b_open = 203 / 2, high = 102, low = 101, close = 203 / 2, volume = 100\<rparr>,
         \<lparr>datetime = 420, b_open = 199 / 2, high = 101, low = 99, close = 199 / 2, volume = 100\<rparr>,
         \<lparr>datetime = 480, b_open = 199 / 2, high = 100, low = 99, close = 199 / 2, volume = 100\<rparr>,
         \<lparr>datetime = 540, b_open = 199 / 2, high = 100, low = 99, close = 199 / 2, volume = 100\<rparr>])"
  by code_simp

lemma set_valid_ranges:
  "set (valid_ranges od) = {(p, orb_range l) | p l. (p, Levels l) \<in> set od}"
  by (auto simp: valid_ranges_def List.map_filter_def image_iff split: orb_entry.splits)
    (force split: orb_entry.splits)+

lemma fst_valid_ranges:
  "map fst (valid_ranges od) = map fst (filter (\<lambda>(p, d). \<exists>l. d = Levels l) od)"
  by (induction od) (auto simp: valid_ranges_def List.map_filter_simps split: orb_entry.splits)

lemma distinct_valid_ranges:
  assumes "distinct (map fst od)"
  shows "distinct (valid_ranges od)"
proof -
  have "distinct (map fst (valid_ranges od))"
    unfolding fst_valid_ranges using assms by (rule distinct_map_filter)
  then show ?thesis by (simp add: distinct_map)
qed

lemma strict_fst_sorted:
  fixes sd :: "(int \<times> rat) list"
  assumes "sorted_wrt (<) (map fst sd)"
  shows "sorted sd \<and> distinct sd"
proof -
  have s: "sorted_wrt (\<lambda>a b. fst a < fst b) sd"
    using assms by (simp add: sorted_wrt_map)
  have "sorted_wrt (\<le>) sd"
    by (rule sorted_wrt_mono_rel [OF _ s]) (auto simp: less_eq_prod_def)
  moreover have "distinct (map fst sd)"
    using assms by (simp add: strict_sorted_iff)
  ultimately show ?thesis by (simp add: distinct_map)
qed

lemma sort_valid_ranges:
  fixes sd :: "(int \<times> rat) list"
  assumes "distinct (map fst od)" and "sorted_wrt (<) (map fst sd)"
    and "set sd = set (valid_ranges od)"
  shows "sort (valid_ranges od) = sd"
proof (rule sorted_distinct_set_unique)
  show "sorted (sort (valid_ranges od))" by simp
  show "distinct (sort (valid_ranges od))"
    using distinct_valid_ranges [OF assms(1)] by simp
  show "sorted sd" "distinct sd"
    using strict_fst_sorted [OF assms(2)] by simp_all
  show "set (sort (valid_ranges od)) = set sd"
    using assms(3) by simp
qed


lemma contracting_nth:
  "list_all (\<lambda>i. map snd sd ! i \<le> map snd sd ! (i - 1)) [1..<length (map snd sd)] \<longleftrightarrow>
   (\<forall>i. 1 \<le> i \<and> i < length sd \<longrightarrow> snd (sd ! i) \<le> snd (sd ! (i - 1)))"
proof -
  have "map snd sd ! i = snd (sd ! i) \<and> map snd sd ! (i - 1) = snd (sd ! (i - 1))"
    if "i < length sd" for i
    using that by simp
  then show ?thesis
    by (auto simp: list_all_iff simp del: nth_map)
qed

text \<open>
  Claim C8. Let the dict of period entries have distinct keys and at least two entries
  with sufficient data, and let \<open>sd\<close> be those periods with their ranges in ascending order
  of period length. Then the squeeze detection reports the periods in that order;
  \<open>contracting_ranges\<close> holds iff each range is at most the range of the period before it;
  the compression ratio is the range of the longest period divided by the range of the
  shortest one (1 when that range is not positive), reported rounded to two decimals; and
  \<open>squeeze_detected\<close> holds iff the ranges contract and the ratio is below 0.7.
\<close>

theorem squeeze_detection:
  fixes sd :: "(int \<times> rat) list"
  assumes "distinct (map fst orb_data)"
    and "sorted_wrt (<) (map fst sd)"
    and "set sd = set (valid_ranges orb_data)"
    and "2 \<le> length sd"
  shows "\<exists>r. detect_orb_squeeze orb_data = Report r \<and>
           map fst (range_progression r) = map fst sd \<and>
           contracting_ranges r =
             (\<forall>i. 1 \<le> i \<and> i < length sd \<longrightarrow> snd (sd ! i) \<le> snd (sd ! (i - 1))) \<and>
           compression_ratio r =
             round_nd (if snd (hd sd) > 0 then snd (last sd) / snd (hd sd) else 1) 2 \<and>
           squeeze_detected r =
             (contracting_ranges r \<and>
              (if snd (hd sd) > 0 then snd (last sd) / snd (hd sd) else 1) < 7 / 10)"
proof -
  have srt: "sort (valid_ranges orb_data) = sd"
    using assms(1-3) by (rule sort_valid_ranges)
  have len: "length (valid_ranges orb_data) = length sd"
    using arg_cong [OF srt, of length] by simp
  have ne: "sd \<noteq> []" using assms(4) by auto
  have h: "map snd sd ! 0 = snd (hd sd)"
    using ne by (simp add: hd_conv_nth)
  have l: "last (map snd sd) = snd (last sd)"
    using ne by (simp add: last_map)
  have m: "map (fst \<circ> (\<lambda>(p, r). (p, round_nd r 2))) sd = map fst sd"
    by (rule map_cong) auto
  show ?thesis
    using assms(4)
    unfolding detect_orb_squeeze_def Let_def srt contracting_nth h l len
    by (simp add: m)
qed

theorem squeeze_detection_witness:
  "distinct (map fst
      [(15, Levels (sample_levels (3 / 2))), (5, Levels (sample_levels 2)),
       (30, Levels (sample_levels 1)), (60 :: int, InsufficientData 40)]) \<and>
   sorted_wrt (<) (map fst [(5 :: int, 2 :: rat), (15, 3 / 2), (30, 1)]) \<and>
   set [(5 :: int, 2 :: rat), (15, 3 / 2), (30, 1)] =
     set (valid_ranges
      [(15, Levels (sample_levels (3 / 2))), (5, Levels (sample_levels 2)),
       (30, Levels (sample_levels 1)), (60, InsufficientData 40)]) \<and>
   (\<exists>r. detect_orb_squeeze
      [(15, Levels (sample_levels (3 / 2))), (5, Levels (sample_levels 2)),
       (30, Levels (sample_levels 1)), (60, InsufficientData 40)] = Report r \<and>
      contracting_ranges r \<and> squeeze_detected r \<and> compression_ratio r = 1 / 2)"
proof -
  let ?od = "[(15, Levels (sample_levels (3 / 2))), (5, Levels (sample_levels 2)),
       (30, Levels (sample_levels 1)), (60 :: int, InsufficientData 40)]"
  let ?sd = "[(5 :: int, 2 :: rat), (15, 3 / 2), (30, 1)]"
  have d: "distinct (map fst ?od)" by simp
  have s: "sorted_wrt (<) (map fst ?sd)" by simp
  have v: "set ?sd = set (valid_ranges ?od)"
    by (auto simp: valid_ranges_def List.map_filter_simps sample_levels_def)
  have n: "2 \<le> length ?sd" by simp
  have r: "round_nd (1 / 2) 2 = 1 / 2" by code_simp
  have i: "(\<forall>i. 1 \<le> i \<and> i < length ?sd \<longrightarrow> snd (?sd ! i) \<le> snd (?sd ! (i - 1)))"
    by (auto simp: less_Suc_eq numeral_3_eq_3)
  from squeeze_detection [OF d s v n] i r
  have "\<exists>r. detect_orb_squeeze ?od = Report r \<and>
      contracting_ranges r \<and> squeeze_detected r \<and> compression_ratio r = 1 / 2"
    by auto
  with d s v show ?thesis by blast
qed

section \<open>Volume profile: the claims on the binning\<close>

lemma searchsorted_off_edge:
  assumes "v \<notin> set a"
  shows "searchsorted_right a v = searchsorted_left a v"
proof -
  have "takeWhile (\<lambda>e. e \<le> v) a = takeWhile (\<lambda>e. e < v) a"
    using assms by (intro takeWhile_cong) (auto simp: less_le)
  then show ?thesis
    by (simp add: searchsorted_left_def searchsorted_right_def)
qed

lemma add_bar_zero_width:
  assumes "high row = low row" and "low row \<notin> set bins"
  shows "add_bar bins prec vbp row = vbp"
  using searchsorted_off_edge [OF assms(2)] assms(1)
  by (simp add: add_bar_def)

lemma price_bins_volume [simp]:
  "price_bins (pre @ row\<lparr>volume := v\<rparr> # post) n = price_bins (pre @ row # post) n"
  by (simp add: price_bins_def)

text \<open>
  Claim C9. A bar whose high equals its low, at a price that is no bin edge, spans no bin:
  the round of the loop for it leaves the dict as it was, and the profile of the frame does
  not depend on the bar's volume, which reaches no bin and no total.
\<close>

theorem zero_width_bar_dropped:
  assumes "high row = low row"
    and "low row \<notin> set (price_bins (pre @ row # post) num_bins)"
  shows "add_bar (price_bins (pre @ row # post) num_bins) prec vbp row = vbp \<and>
         calculate_volume_profile (pre @ row\<lparr>volume := v\<rparr> # post) num_bins prec =
         calculate_volume_profile (pre @ row # post) num_bins prec"
proof
  let ?bins = "price_bins (pre @ row # post) num_bins"
  show "add_bar ?bins prec vbp row = vbp"
    using assms by (rule add_bar_zero_width)
  have a: "add_bar ?bins prec m (row\<lparr>volume := v\<rparr>) = m" for m
    using assms by (intro add_bar_zero_width) simp_all
  have b: "add_bar ?bins prec m row = m" for m
    using assms by (rule add_bar_zero_width)
  have "foldl (add_bar ?bins prec) [] (pre @ row\<lparr>volume := v\<rparr> # post) =
        foldl (add_bar ?bins prec) [] (pre @ row # post)"
    by (simp add: a b)
  then show "calculate_volume_profile (pre @ row\<lparr>volume := v\<rparr> # post) num_bins prec =
         calculate_volume_profile (pre @ row # post) num_bins prec"
    by (simp add: calculate_volume_profile_def Let_def)
qed

theorem zero_width_bar_dropped_witness:
  "high \<lparr>datetime = 60, b_open = 1051 / 10, high = 1051 / 10, low = 1051 / 10,
          close = 1051 / 10, volume = 777\<rparr> =
   low \<lparr>datetime = 60, b_open = 1051 / 10, high = 1051 / 10, low = 1051 / 10,
          close = 1051 / 10, volume = 777\<rparr> \<and>
   low \<lparr>datetime = 60, b_open = 1051 / 10, high = 1051 / 10, low = 1051 / 10,
          close = 1051 / 10, volume = 777\<rparr> \<notin>
     set (price_bins
       ([\<lparr>datetime = 0, b_open = 100, high = 110, low = 100, close = 110, volume = 2100\<rparr>] @
        \<lparr>datetime = 60, b_open = 1051 / 10, high = 1051 / 10, low = 1051 / 10,
          close = 1051 / 10, volume = 777\<rparr> # []) 20) \<and>
   calculate_volume_profile
       ([\<lparr>datetime = 0, b_open = 100, high = 110, low = 100, close = 110, volume = 2100\<rparr>] @
        \<lparr>datetime = 60, b_open = 1051 / 10, high = 1051 / 10, low = 1051 / 10,
          close = 1051 / 10, volume = 777\<rparr>\<lparr>volume := 0\<rparr> # []) 20 2 =
   calculate_volume_profile
       ([\<lparr>datetime = 0, b_open = 100, high = 110, low = 100, close = 110, volume = 2100\<rparr>] @
        \<lparr>datetime = 60, b_open = 1051 / 10, high = 1051 / 10, low = 1051 / 10,
          close = 1051 / 10, volume = 777\<rparr> # []) 20 2"
proof -
  let ?row = "\<lparr>datetime = 60, b_open = 1051 / 10, high = 1051 / 10, low = 1051 / 10,
          close = 1051 / 10, volume = (777::rat)\<rparr>"
  let ?pre = "[\<lparr>datetime = 0, b_open = 100, high = 110, low = 100, close = 110, volume = (2100::rat)\<rparr>]"
  have h: "high ?row = low ?row" by simp
  have e: "low ?row \<notin> set (price_bins (?pre @ ?row # []) 20)"
    by code_simp
  from zero_width_bar_dropped [OF h e, of 2 "[]" 0] h e show ?thesis
    by blast
qed

lemma single_bar_profile_eval:
  "calculate_volume_profile
     [\<lparr>datetime = 0, b_open = 100, high = 110, low = 100, close = 110, volume = 2100\<rparr>] 20 2
   = Some single_bar_profile"
  by code_simp

text \<open>
  Claim C1 does not hold of the code. One bar from 100 to 110 with a volume of 2100 and 20
  bins: the edges are 100, 100.5, \<dots>, 110, the bar spans the indices 0 to 20 and its
  share is 2100 / 21 = 100, but only the indices 0 to 19 are bins. The share of index 20
  is computed and dropped, and the bins hold 2000 of the 2100.
\<close>

theorem volume_lost_at_top_edge:
  "map_option total_volume
     (calculate_volume_profile
        [\<lparr>datetime = 0, b_open = 100, high = 110, low = 100, close = 110, volume = 2100\<rparr>]
        20 2) = Some 2000 \<and>
   sum_list (map volume
        [\<lparr>datetime = 0, b_open = 100, high = 110, low = 100, close = 110, volume = 2100\<rparr>])
     = 2100"
  by (simp add: single_bar_profile_eval single_bar_profile_def)

section \<open>Volume profile: the value area\<close>

lemma rint_mono:
  assumes "x \<le> y"
  shows "rint x \<le> rint y"
proof -
  let ?fx = "\<lfloor>x\<rfloor>" and ?fy = "\<lfloor>y\<rfloor>"
  have fx: "of_int ?fx \<le> x" "x < of_int ?fx + 1" by linarith+
  have fy: "of_int ?fy \<le> y" "y < of_int ?fy + 1" by linarith+
  have le: "?fx \<le> ?fy" using assms by (rule floor_mono)
  show ?thesis
  proof (cases "?fx = ?fy")
    case True
    then show ?thesis
      using assms by (auto simp: rint_def Let_def)
  next
    case False
    then have "?fx + 1 \<le> ?fy" using le by simp
    moreover have "rint x \<le> ?fx + 1" by (simp add: rint_def Let_def)
    moreover have "?fy \<le> rint y" by (simp add: rint_def Let_def)
    ultimately show ?thesis by linarith
  qed
qed

lemma round_nd_mono: "x \<le> y \<Longrightarrow> round_nd x n \<le> round_nd y n"
  by (simp add: round_nd_def divide_right_mono rint_mono mult_right_mono)

lemma rint_of_int [simp]: "rint (of_int k) = k"
  by (simp add: rint_def Let_def)

lemma round_nd_int: "round_nd (of_int k) n = of_int k"
proof -
  have "of_int k * (10::rat) ^ n = of_int (k * 10 ^ n)" by simp
  then have "rint (of_int k * 10 ^ n) = k * 10 ^ n"
    by (simp only: rint_of_int)
  then show ?thesis by (simp add: round_nd_def)
qed

lemma round_nd_70: "round_nd 70 n = 70" and round_nd_100: "round_nd 100 n = 100"
  using round_nd_int [of 70 n] round_nd_int [of 100 n] by simp_all



lemma fst_dict_set_old:
  "k \<in> fst ` set m \<Longrightarrow> map fst (dict_set m k v) = map fst m"
  by (induction m) force+

lemma fst_dict_set_new:
  "k \<notin> fst ` set m \<Longrightarrow> map fst (dict_set m k v) = map fst m @ [k]"
  by (induction m) auto

lemma distinct_dict_set:
  "distinct (map fst m) \<Longrightarrow> distinct (map fst (dict_set m k v))"
  by (cases "k \<in> fst ` set m") (simp_all add: fst_dict_set_old fst_dict_set_new)

lemma in_dict_set: "(a, b) \<in> set (dict_set m k v) \<Longrightarrow> b = v \<or> (a, b) \<in> set m"
  by (induction m) (auto split: if_splits)

lemma dict_get_nonneg:
  assumes "dict_ok m"
  shows "0 \<le> dict_get m k 0"
proof (cases "map_of m k")
  case None
  then show ?thesis by (simp add: dict_get_def)
next
  case (Some v)
  then have "(k, v) \<in> set m" by (rule map_of_SomeD)
  then have "0 \<le> v" using assms by (auto simp: dict_ok_def)
  then show ?thesis using Some by (simp add: dict_get_def)
qed

lemma dict_ok_set:
  assumes "dict_ok m" and "0 \<le> v"
  shows "dict_ok (dict_set m k v)"
proof -
  have "0 \<le> b" if "(a, b) \<in> set (dict_set m k v)" for a b
    using in_dict_set [OF that] assms by (auto simp: dict_ok_def)
  then show ?thesis
    using distinct_dict_set [of m k v] assms(1)
    by (auto simp: dict_ok_def)
qed

lemma dict_ok_add_share:
  assumes "dict_ok m" and "0 \<le> vpb"
  shows "dict_ok (add_share bins prec vpb m i)"
  using assms dict_get_nonneg [OF assms(1)]
  by (simp add: add_share_def Let_def dict_ok_set)

lemma dict_ok_foldl_share:
  assumes "dict_ok m" and "0 \<le> vpb"
  shows "dict_ok (foldl (add_share bins prec vpb) m is)"
  using assms(1)
  by (induction "is" arbitrary: m) (simp_all add: dict_ok_add_share assms(2))

lemma dict_ok_add_bar:
  assumes "dict_ok m" and "0 \<le> volume row"
  shows "dict_ok (add_bar bins prec m row)"
  using assms by (simp add: add_bar_def Let_def dict_ok_foldl_share)

lemma dict_ok_foldl_bar:
  assumes "dict_ok m" and "\<forall>b \<in> set df. 0 \<le> volume b"
  shows "dict_ok (foldl (add_bar bins prec) m df)"
  using assms
  by (induction df arbitrary: m) (simp_all add: dict_ok_add_bar)


lemma sum_insort_key:
  fixes g :: "'a \<Rightarrow> rat"
  shows "sum_list (map g (insort_key f x xs)) = g x + sum_list (map g xs)"
  by (induction xs) simp_all

lemma sum_sort_key:
  fixes g :: "'a \<Rightarrow> rat"
  shows "sum_list (map g (sort_key f xs)) = sum_list (map g xs)"
  by (induction xs) (simp_all add: sum_insort_key)

lemma dict_get_own:
  fixes m :: "(rat \<times> rat) list"
  assumes "distinct (map fst m)"
  shows "map (\<lambda>p. dict_get m p d) (map fst m) = map snd m"
proof -
  have "dict_get m (fst kv) d = snd kv" if "kv \<in> set m" for kv
  proof -
    have "map_of m (fst kv) = Some (snd kv)"
      using assms that by (intro map_of_is_SomeI) simp_all
    then show ?thesis by (simp add: dict_get_def)
  qed
  then show ?thesis by simp
qed

lemma sum_sorted_keys:
  fixes m :: "(rat \<times> rat) list"
  assumes "distinct (map fst m)"
  shows "sum_list (map (\<lambda>p. dict_get m p 0) (sort (map fst m))) = sum_list (map snd m)"
proof -
  have "sum_list (map (\<lambda>p. dict_get m p 0) (sort (map fst m))) =
        sum_list (map (\<lambda>p. dict_get m p 0) (map fst m))"
    by (rule sum_sort_key)
  then show ?thesis
    by (simp only: dict_get_own [OF assms])
qed

lemma seg_sum_left: "a < b \<Longrightarrow> seg_sum m aps a b = dict_get m (aps ! a) 0 + seg_sum m aps (Suc a) b"
  by (simp add: seg_sum_def upt_conv_Cons)

lemma seg_sum_right: "a \<le> b \<Longrightarrow> seg_sum m aps a (Suc b) = seg_sum m aps a b + dict_get m (aps ! b) 0"
  by (simp add: seg_sum_def)

lemma va_loop_post:
  "dict_ok m \<Longrightarrow> va_inv m aps poc st \<Longrightarrow>
     va_inv m aps poc (value_area_loop m aps target st) \<and>
     va_done target (length aps) (value_area_loop m aps target st)"
proof (induction m aps target st rule: value_area_loop.induct)
  case (1 m aps target acc vaps l r)
  let ?lv = "if l \<ge> 0 then dict_get m (aps ! nat l) 0 else 0"
  let ?rv = "if r < length aps then dict_get m (aps ! r) 0 else 0"
  from "1.prems"(2) have inv: "- 1 \<le> l" "nat (l + 1) < r" "r \<le> length aps"
    "acc = seg_sum m aps (nat (l + 1)) r" "vaps \<noteq> []" "hd vaps = poc"
    by (simp_all add: va_inv_def)
  show ?case
  proof (cases "acc < target")
    case False
    have "value_area_loop m aps target (acc, vaps, l, r) = (acc, vaps, l, r)"
      by (subst value_area_loop.simps) (simp only: if_not_P [OF False])
    then show ?thesis
      using False "1.prems"(2) by (simp add: va_done_def)
  next
    case True
    consider (left) "?lv \<ge> ?rv \<and> l \<ge> 0"
      | (right) "\<not> (?lv \<ge> ?rv \<and> l \<ge> 0)" "r < length aps"
      | (stop) "\<not> (?lv \<ge> ?rv \<and> l \<ge> 0)" "\<not> r < length aps"
      by blast
    then show ?thesis
    proof cases
      case left
      let ?st = "(acc + ?lv, vaps @ [aps ! nat l], l - 1, r)"
      have eq: "value_area_loop m aps target (acc, vaps, l, r) = value_area_loop m aps target ?st"
        by (subst value_area_loop.simps) (simp only: Let_def if_P [OF True] if_P [OF left])
      have l0: "0 \<le> l" using left by simp
      have n: "nat (l + 1) = Suc (nat l)" using l0 by (simp add: nat_add_distrib)
      have "nat l < r" using inv(2) n by simp
      then have "seg_sum m aps (nat l) r = dict_get m (aps ! nat l) 0 + seg_sum m aps (Suc (nat l)) r"
        by (rule seg_sum_left)
      then have "va_inv m aps poc ?st"
        using inv l0 n by (simp add: va_inv_def)
      from "1.IH"(1) [OF True refl refl left "1.prems"(1) this] show ?thesis
        unfolding eq .
    next
      case right
      let ?st = "(acc + ?rv, vaps @ [aps ! r], l, r + 1)"
      have eq: "value_area_loop m aps target (acc, vaps, l, r) = value_area_loop m aps target ?st"
        by (subst value_area_loop.simps)
          (simp only: Let_def if_P [OF True] if_not_P [OF right(1)], simp only: if_P [OF right(2)])
      have "seg_sum m aps (nat (l + 1)) (Suc r) = seg_sum m aps (nat (l + 1)) r + dict_get m (aps ! r) 0"
        using inv(2) by (intro seg_sum_right) simp
      then have "va_inv m aps poc ?st"
        using inv right(2) by (simp add: va_inv_def)
      from "1.IH"(2) [OF True refl refl right "1.prems"(1) this] show ?thesis
        unfolding eq .
    next
      case stop
      have eq: "value_area_loop m aps target (acc, vaps, l, r) = (acc, vaps, l, r)"
        by (subst value_area_loop.simps)
          (simp only: Let_def if_P [OF True] if_not_P [OF stop(1)], simp only: if_not_P [OF stop(2)])
      have "0 \<le> dict_get m (aps ! nat l) 0"
        using "1.prems"(1) by (rule dict_get_nonneg)
      then have "l < 0" using stop by (auto split: if_splits)
      then have "l = - 1 \<and> r = length aps"
        using inv(1,3) stop(2) by simp
      then show ?thesis
        unfolding eq using "1.prems"(2) by (simp add: va_done_def)
    qed
  qed
qed

lemma fold_max_ge: "(a::rat) \<le> fold max xs a"
proof (induction xs arbitrary: a)
  case Nil
  show ?case by simp
next
  case (Cons x xs)
  have "a \<le> max x a" by simp
  also have "\<dots> \<le> fold max xs (max x a)" by (rule Cons.IH)
  finally show ?case by simp
qed

lemma fold_min_le: "fold min xs (a::rat) \<le> a"
proof (induction xs arbitrary: a)
  case Nil
  show ?case by simp
next
  case (Cons x xs)
  have "fold min xs (min x a) \<le> min x a" by (rule Cons.IH)
  also have "\<dots> \<le> a" by simp
  finally show ?case by simp
qed

lemma col_bounds: "col_min xs \<le> hd xs \<and> hd xs \<le> col_max xs"
  by (simp add: col_min_def col_max_def fold_max_ge fold_min_le)

lemma va_loop_head:
  "vaps \<noteq> [] \<Longrightarrow>
     (case value_area_loop m aps target (acc, vaps, l, r) of
        (acc', vaps', l', r') \<Rightarrow> vaps' \<noteq> [] \<and> hd vaps' = hd vaps)"
proof (induction m aps target "(acc, vaps, l, r)" arbitrary: acc vaps l r
    rule: value_area_loop.induct)
  case (1 m aps target acc vaps l r)
  let ?lv = "if l \<ge> 0 then dict_get m (aps ! nat l) 0 else 0"
  let ?rv = "if r < length aps then dict_get m (aps ! r) 0 else 0"
  show ?case
  proof (cases "acc < target")
    case False
    have "value_area_loop m aps target (acc, vaps, l, r) = (acc, vaps, l, r)"
      by (subst value_area_loop.simps) (simp only: if_not_P [OF False])
    then show ?thesis using "1.prems" by simp
  next
    case True
    consider (left) "?lv \<ge> ?rv \<and> l \<ge> 0"
      | (right) "\<not> (?lv \<ge> ?rv \<and> l \<ge> 0)" "r < length aps"
      | (stop) "\<not> (?lv \<ge> ?rv \<and> l \<ge> 0)" "\<not> r < length aps"
      by blast
    then show ?thesis
    proof cases
      case left
      have eq: "value_area_loop m aps target (acc, vaps, l, r) =
          value_area_loop m aps target (acc + ?lv, vaps @ [aps ! nat l], l - 1, r)"
        by (subst value_area_loop.simps) (simp only: Let_def if_P [OF True] if_P [OF left])
      have ne: "vaps @ [aps ! nat l] \<noteq> []" by simp
      from "1.hyps"(1) [OF True refl refl left ne] "1.prems" show ?thesis
        unfolding eq by (auto split: prod.splits)
    next
      case right
      have eq: "value_area_loop m aps target (acc, vaps, l, r) =
          value_area_loop m aps target (acc + ?rv, vaps @ [aps ! r], l, r + 1)"
        by (subst value_area_loop.simps)
          (simp only: Let_def if_P [OF True] if_not_P [OF right(1)], simp only: if_P [OF right(2)])
      have ne: "vaps @ [aps ! r] \<noteq> []" by simp
      from "1.hyps"(2) [OF True refl refl right ne] "1.prems" show ?thesis
        unfolding eq by (auto split: prod.splits)
    next
      case stop
      have eq: "value_area_loop m aps target (acc, vaps, l, r) = (acc, vaps, l, r)"
        by (subst value_area_loop.simps)
          (simp only: Let_def if_P [OF True] if_not_P [OF stop(1)], simp only: if_not_P [OF stop(2)])
      show ?thesis unfolding eq using "1.prems" by simp
    qed
  qed
qed

lemma seg_sum_nonneg: "dict_ok m \<Longrightarrow> 0 \<le> seg_sum m aps a b"
  by (auto simp: seg_sum_def intro!: sum_list_nonneg dict_get_nonneg)

lemma seg_sum_split:
  assumes "a \<le> b" and "b \<le> n"
  shows "seg_sum m aps 0 n = seg_sum m aps 0 a + seg_sum m aps a b + seg_sum m aps b n"
proof -
  have "[0..<n] = [0..<a] @ [a..<b] @ [b..<n]"
    using assms by (metis le_trans upt_add_eq_append le_add_diff_inverse le0 add_0)
  then show ?thesis by (simp add: seg_sum_def)
qed

lemma seg_sum_le:
  assumes "dict_ok m" and "a \<le> b" and "b \<le> n"
  shows "seg_sum m aps a b \<le> seg_sum m aps 0 n"
  using seg_sum_split [OF assms(2,3), of m aps]
    seg_sum_nonneg [OF assms(1), of aps 0 a] seg_sum_nonneg [OF assms(1), of aps b n]
  by simp

lemma seg_sum_all: "seg_sum m aps 0 (length aps) = sum_list (map (\<lambda>p. dict_get m p 0) aps)"
proof -
  have "map (\<lambda>i. dict_get m (aps ! i) 0) [0..<length aps] =
        map (\<lambda>p. dict_get m p 0) (map ((!) aps) [0..<length aps])"
    by simp
  then show ?thesis by (simp only: seg_sum_def map_nth)
qed

lemma index_of_nth:
  "x \<in> set xs \<Longrightarrow> index_of x xs < length xs \<and> xs ! index_of x xs = x"
  unfolding index_of_def by (induction xs) auto

lemma poc_in_keys:
  fixes m :: "(rat \<times> rat) list"
  assumes "m \<noteq> []"
  shows "fst (hd (sort_key f m)) \<in> set (sort (map fst m))"
proof -
  have "sort_key f m \<noteq> []" using assms by (metis length_sort length_0_conv)
  then have "hd (sort_key f m) \<in> set (sort_key f m)" by (rule hd_in_set)
  then show ?thesis by simp
qed

lemma profile_of_fields:
  assumes "value_area_loop m (sort (map fst m))
             (sum_list (map snd (sort_key (\<lambda>pv. - snd pv) m)) * (7 / 10))
             (dict_get m (fst (hd (sort_key (\<lambda>pv. - snd pv) m))) 0,
              [fst (hd (sort_key (\<lambda>pv. - snd pv) m))],
              int (index_of (fst (hd (sort_key (\<lambda>pv. - snd pv) m))) (sort (map fst m))) - 1,
              index_of (fst (hd (sort_key (\<lambda>pv. - snd pv) m))) (sort (map fst m)) + 1)
           = (acc, vaps, l, r)"
  shows "point_of_control (profile_of bw prec m) =
           round_nd (fst (hd (sort_key (\<lambda>pv. - snd pv) m))) prec"
    and "value_area_high (profile_of bw prec m) = round_nd (col_max vaps) prec"
    and "value_area_low (profile_of bw prec m) = round_nd (col_min vaps) prec"
    and "total_volume (profile_of bw prec m) = sum_list (map snd (sort_key (\<lambda>pv. - snd pv) m))"
    and "value_area_volume (profile_of bw prec m) = acc"
    and "value_area_percentage (profile_of bw prec m) =
           round_nd (acc / sum_list (map snd (sort_key (\<lambda>pv. - snd pv) m)) * 100) 2"
  unfolding profile_of_def Let_def assms prod.case by simp_all

lemma profile_of_area:
  assumes "m \<noteq> []"
  shows "value_area_low (profile_of bw prec m) \<le> point_of_control (profile_of bw prec m) \<and>
         point_of_control (profile_of bw prec m) \<le> value_area_high (profile_of bw prec m)"
proof -
  let ?sp = "sort_key (\<lambda>pv. - snd pv) m"
  let ?poc = "fst (hd ?sp)"
  let ?aps = "sort (map fst m)"
  let ?idx = "index_of ?poc ?aps"
  let ?res = "value_area_loop m ?aps (sum_list (map snd ?sp) * (7 / 10))
                (dict_get m ?poc 0, [?poc], int ?idx - 1, ?idx + 1)"
  obtain acc vaps l r where res: "?res = (acc, vaps, l, r)"
    by (cases ?res)
  have "vaps \<noteq> [] \<and> hd vaps = ?poc"
    using va_loop_head [of "[?poc]" m ?aps "sum_list (map snd ?sp) * (7 / 10)"
        "dict_get m ?poc 0" "int ?idx - 1" "?idx + 1"]
    unfolding res by simp
  then have "col_min vaps \<le> ?poc \<and> ?poc \<le> col_max vaps"
    using col_bounds [of vaps] by simp
  then show ?thesis
    unfolding profile_of_fields [OF res] by (simp add: round_nd_mono)
qed

lemma profile_of_volumes:
  assumes "dict_ok m" and "m \<noteq> []"
  shows "total_volume (profile_of bw prec m) = sum_list (map snd m) \<and>
         value_area_volume (profile_of bw prec m) \<le> total_volume (profile_of bw prec m) \<and>
         total_volume (profile_of bw prec m) * (7 / 10) \<le> value_area_volume (profile_of bw prec m) \<and>
         value_area_percentage (profile_of bw prec m) =
           round_nd (value_area_volume (profile_of bw prec m) /
                     total_volume (profile_of bw prec m) * 100) 2"
proof -
  let ?sp = "sort_key (\<lambda>pv. - snd pv) m"
  let ?poc = "fst (hd ?sp)"
  let ?aps = "sort (map fst m)"
  let ?idx = "index_of ?poc ?aps"
  let ?total = "sum_list (map snd ?sp)"
  let ?st = "(dict_get m ?poc 0, [?poc], int ?idx - 1, ?idx + 1)"
  let ?res = "value_area_loop m ?aps (?total * (7 / 10)) ?st"
  obtain acc vaps l r where res: "?res = (acc, vaps, l, r)"
    by (cases ?res)
  have total: "?total = sum_list (map snd m)"
    by (rule sum_sort_key)
  have all: "seg_sum m ?aps 0 (length ?aps) = ?total"
    unfolding seg_sum_all total
    using assms(1) by (intro sum_sorted_keys) (simp add: dict_ok_def)
  have idx: "?idx < length ?aps" "?aps ! ?idx = ?poc"
    using index_of_nth [OF poc_in_keys [OF assms(2), of "\<lambda>pv. - snd pv"]] by simp_all
  have "seg_sum m ?aps ?idx (Suc ?idx) = dict_get m ?poc 0"
    by (simp add: seg_sum_def idx(2))
  then have "va_inv m ?aps ?poc ?st"
    using idx(1) by (simp add: va_inv_def)
  from va_loop_post [OF assms(1) this, of "?total * (7 / 10)"]
  have inv: "va_inv m ?aps ?poc (acc, vaps, l, r)"
    and fin: "va_done (?total * (7 / 10)) (length ?aps) (acc, vaps, l, r)"
    unfolding res by simp_all
  have acc: "acc = seg_sum m ?aps (nat (l + 1)) r" and r: "nat (l + 1) < r" "r \<le> length ?aps"
    using inv by (simp_all add: va_inv_def)
  have le: "acc \<le> ?total"
    unfolding acc all [symmetric]
    using assms(1) r by (intro seg_sum_le) simp_all
  have nonneg: "0 \<le> ?total"
    unfolding all [symmetric] using assms(1) by (rule seg_sum_nonneg)
  have ge: "?total * (7 / 10) \<le> acc"
  proof (cases "?total * (7 / 10) \<le> acc")
    case True
    then show ?thesis .
  next
    case False
    then have "l = - 1 \<and> r = length ?aps"
      using fin by (simp add: va_done_def)
    then have "acc = ?total" using acc all by simp
    then show ?thesis using nonneg by simp
  qed
  show ?thesis
    unfolding profile_of_fields [OF res] using le ge total by simp
qed

lemma calculate_volume_profile_Some:
  assumes "calculate_volume_profile df num_bins prec = Some vp"
  obtains bw where
    "vp = profile_of bw prec (foldl (add_bar (price_bins df num_bins) prec) [] df)"
    and "foldl (add_bar (price_bins df num_bins) prec) [] df \<noteq> []"
  using assms
  by (auto simp: calculate_volume_profile_def Let_def split: if_splits)

text \<open>
  Claim C3, as stated, fails in its last part: the percentage is rounded to two decimals,
  so it is reported as 100 while bins with volume are outside the value area. Below, one
  bar from 100 to 110 with a volume of 21 puts a volume of 1 into each of the 20 bins, and
  one bar from 100 to 100.4 with a volume of 1000000 falls into the lowest bin. The value
  area is that one bin (low and high are both 100.25), it holds 1000001 of 1000020, and
  the reported percentage is 100.
\<close>

theorem value_area_percentage_counterexample:
  "map_option
     (\<lambda>vp. (value_area_low vp, value_area_high vp, value_area_volume vp, total_volume vp,
            value_area_percentage vp))
     (calculate_volume_profile
        [\<lparr>datetime = 0, b_open = 100, high = 110, low = 100, close = 110, volume = 21\<rparr>,
         \<lparr>datetime = 60, b_open = 100, high = 502 / 5, low = 100, close = 100,
          volume = 1000000\<rparr>]
        20 2)
   = Some (401 / 4, 401 / 4, 1000001, 1000020, 100) \<and>
   length (foldl
     (add_bar (price_bins
        [\<lparr>datetime = 0, b_open = 100, high = 110, low = 100, close = 110, volume = 21\<rparr>,
         \<lparr>datetime = 60, b_open = 100, high = 502 / 5, low = 100, close = 100,
          volume = 1000000\<rparr>] 20) 2) []
        [\<lparr>datetime = 0, b_open = 100, high = 110, low = 100, close = 110, volume = 21\<rparr>,
         \<lparr>datetime = 60, b_open = 100, high = 502 / 5, low = 100, close = 100,
          volume = 1000000\<rparr>]) = 20"
  by code_simp

text \<open>
  Claim C3, amended. Every profile that is returned has
  \<open>value_area_low \<le> point_of_control \<le> value_area_high\<close>. When no bar has a negative
  volume and the total volume is positive, the value area holds at most the total volume
  and the reported percentage is at least 70 and at most 100.
\<close>

theorem value_area_bounds:
  assumes "calculate_volume_profile df num_bins prec = Some vp"
  shows "value_area_low vp \<le> point_of_control vp \<and>
         point_of_control vp \<le> value_area_high vp \<and>
         ((\<forall>b \<in> set df. 0 \<le> volume b) \<and> 0 < total_volume vp \<longrightarrow>
            70 \<le> value_area_percentage vp \<and> value_area_percentage vp \<le> 100 \<and>
            value_area_volume vp \<le> total_volume vp)"
proof -
  let ?m = "foldl (add_bar (price_bins df num_bins) prec) [] df"
  from assms obtain bw where vp: "vp = profile_of bw prec ?m" and ne: "?m \<noteq> []"
    by (rule calculate_volume_profile_Some)
  have area: "value_area_low vp \<le> point_of_control vp \<and> point_of_control vp \<le> value_area_high vp"
    unfolding vp using ne by (rule profile_of_area)
  have pct: "70 \<le> value_area_percentage vp \<and> value_area_percentage vp \<le> 100 \<and>
            value_area_volume vp \<le> total_volume vp"
    if vols: "\<forall>b \<in> set df. 0 \<le> volume b" and pos: "0 < total_volume vp"
  proof -
    have "dict_ok []" by (simp add: dict_ok_def)
    then have ok: "dict_ok ?m" using vols by (rule dict_ok_foldl_bar)
    from profile_of_volumes [OF ok ne, of bw prec, folded vp]
    have le: "value_area_volume vp \<le> total_volume vp"
      and ge: "total_volume vp * (7 / 10) \<le> value_area_volume vp"
      and p: "value_area_percentage vp =
               round_nd (value_area_volume vp / total_volume vp * 100) 2"
      by simp_all
    have "70 \<le> value_area_volume vp / total_volume vp * 100"
      using ge pos by (simp add: field_simps)
    then have a: "round_nd 70 2 \<le> value_area_percentage vp"
      unfolding p by (rule round_nd_mono)
    have "value_area_volume vp / total_volume vp * 100 \<le> 100"
      using le pos by (simp add: field_simps)
    then have b: "value_area_percentage vp \<le> round_nd 100 2"
      unfolding p by (rule round_nd_mono)
    show ?thesis using a b le by (simp add: round_nd_70 round_nd_100)
  qed
  show ?thesis using area pct by blast
qed

theorem value_area_bounds_witness:
  "calculate_volume_profile
     [\<lparr>datetime = 0, b_open = 100, high = 110, low = 100, close = 110, volume = 2100\<rparr>] 20 2
     = Some single_bar_profile \<and>
   list_all (\<lambda>b. 0 \<le> volume b)
     [\<lparr>datetime = 0, b_open = 100, high = 110, low = 100, close = 110, volume = 2100\<rparr>] \<and>
   0 < total_volume single_bar_profile \<and>
   value_area_low single_bar_profile \<le> point_of_control single_bar_profile \<and>
   point_of_control single_bar_profile \<le> value_area_high single_bar_profile \<and>
   70 \<le> value_area_percentage single_bar_profile \<and>
   value_area_percentage single_bar_profile \<le> 100"
proof -
  let ?df = "[\<lparr>datetime = 0, b_open = 100, high = 110, low = 100, close = 110,
               volume = (2100::rat)\<rparr>]"
  have vols: "\<forall>b \<in> set ?df. 0 \<le> volume b" by simp
  have pos: "0 < total_volume single_bar_profile" by (simp add: single_bar_profile_def)
  from value_area_bounds [OF single_bar_profile_eval] vols pos single_bar_profile_eval
  show ?thesis by simp
qed

section \<open>Technical zones: the status of a time frame\<close>

lemma degrade_not_error [simp]: "degrade to s = Error \<longleftrightarrow> s = Error \<or> (s = Success \<and> to = Error)"
  by (auto simp: degrade_def)

lemma bars_step_failed: "frame_fetch_failed (bars_step w tf bars) \<longleftrightarrow> bars = None"
  by (auto simp: bars_step_def Let_def split: option.splits)

lemma bars_step_status: "frame_status (bars_step w tf bars) \<noteq> Error"
  by (auto simp: bars_step_def Let_def split: option.splits)

lemma atr_step_failed:
  "frame_fetch_failed (fst (atr_step atr st)) \<longleftrightarrow> frame_fetch_failed st \<or> atr = None"
  by (auto simp: atr_step_def split: option.splits)

lemma atr_step_status:
  "frame_status (fst (atr_step atr st)) = Error \<longleftrightarrow> frame_status st = Error"
  by (auto simp: atr_step_def split: option.splits)

lemma atr_step_zones: "zones (fst (atr_step atr st)) = zones st"
  by (auto simp: atr_step_def split: option.splits)

lemma prev_day_step_failed:
  "frame_fetch_failed (prev_day_step tf prev st) \<longleftrightarrow>
     frame_fetch_failed st \<or> ((tf = TF_1m \<or> tf = TF_5m) \<and> prev = None)"
  by (auto simp: prev_day_step_def split: option.splits)

lemma prev_day_step_status: "frame_status (prev_day_step tf prev st) = frame_status st"
  by (auto simp: prev_day_step_def split: option.splits)

lemma prev_day_step_zones:
  "zones (prev_day_step tf prev st) =
     zones st @ (case prev of
                   Some prev_df \<Rightarrow> if tf = TF_1m \<or> tf = TF_5m then prev_day_zones prev_df else []
                 | None \<Rightarrow> [])"
  by (auto simp: prev_day_step_def split: option.splits)

lemma store_frame_status:
  "final_status (store_frame st a) = Error \<longleftrightarrow>
     frame_fetch_failed st \<or> (zones st \<noteq> [] \<and> frame_status st = Error)"
  by (auto simp: store_frame_def)

lemma store_frame_zones: "technical_zones (store_frame st a) = zones st"
  by (simp add: store_frame_def)

lemma frame_error_iff:
  "final_status (process_timeframe w tf f) = Error \<longleftrightarrow>
     df_bars f = None \<or> atr_data f = None \<or>
     ((tf = TF_1m \<or> tf = TF_5m) \<and> prev_day_df f = None)"
proof -
  obtain st2 a where s: "atr_step (atr_data f) (bars_step w tf (df_bars f)) = (st2, a)"
    by (cases "atr_step (atr_data f) (bars_step w tf (df_bars f))")
  have st2: "st2 = fst (atr_step (atr_data f) (bars_step w tf (df_bars f)))"
    using s by simp
  have failed: "frame_fetch_failed st2 \<longleftrightarrow> df_bars f = None \<or> atr_data f = None"
    unfolding st2 by (simp add: atr_step_failed bars_step_failed)
  have status: "frame_status st2 \<noteq> Error"
    unfolding st2 by (simp add: atr_step_status bars_step_status)
  show ?thesis
    using failed status
    by (simp add: process_timeframe_def Let_def s store_frame_status prev_day_step_failed
        prev_day_step_status)
qed

lemma frame_zones:
  "technical_zones (process_timeframe w tf f) =
     zones (bars_step w tf (df_bars f)) @
     atr_zones tf (df_bars f) (snd (atr_step (atr_data f) (bars_step w tf (df_bars f)))) @
     (case prev_day_df f of
        Some prev_df \<Rightarrow> if tf = TF_1m \<or> tf = TF_5m then prev_day_zones prev_df else []
      | None \<Rightarrow> [])"
proof -
  obtain st2 a where s: "atr_step (atr_data f) (bars_step w tf (df_bars f)) = (st2, a)"
    by (cases "atr_step (atr_data f) (bars_step w tf (df_bars f))")
  have "zones st2 = zones (bars_step w tf (df_bars f))"
    using atr_step_zones [of "atr_data f" "bars_step w tf (df_bars f)"] s by simp
  then show ?thesis
    by (simp add: process_timeframe_def Let_def s store_frame_zones prev_day_step_zones)
qed

text \<open>
  Claim C2, as stated, fails: a null from the ATR fetch, or from the previous-day fetch of
  an intraday time frame, sets the same flag as a null from the bar fetch. Below the bars
  of the 5m frame are fetched (one bar from 100 to 110) and so are two daily bars, the ATR
  fetch returns null, and the frame's status is the error status.
\<close>

theorem atr_fetch_null_counterexample:
  "final_status (process_timeframe (1 / 10) TF_5m
     \<lparr>df_bars = Some [\<lparr>datetime = 0, b_open = 100, high = 110, low = 100, close = 110,
                          volume = 2100\<rparr>],
      atr_data = None,
      prev_day_df = Some [\<lparr>datetime = 0, b_open = 98, high = 108, low = 97, close = 100,
                            volume = 90000\<rparr>,
                          \<lparr>datetime = 86400, b_open = 100, high = 110, low = 100, close = 110,
                            volume = 2100\<rparr>]\<rparr>) = Error \<and>
   df_bars
     \<lparr>df_bars = Some [\<lparr>datetime = 0, b_open = 100, high = 110, low = 100, close = 110,
                          volume = 2100\<rparr>],
      atr_data = None,
      prev_day_df = Some [\<lparr>datetime = 0, b_open = 98, high = 108, low = 97, close = 100,
                            volume = 90000\<rparr>,
                          \<lparr>datetime = 86400, b_open = 100, high = 110, low = 100, close = 110,
                            volume = 2100\<rparr>]\<rparr> \<noteq> None"
  by (simp add: frame_error_iff)

text \<open>
  Claim C2, amended. The final status of a time frame is the error status iff one of its
  fetches returned null: the bar fetch, the ATR fetch, or, for the time frames 1m and 5m,
  the previous-day fetch. So a failed volume profile, a missing Fibonacci list, an ATR
  feed that is empty or cannot be read, and a daily frame that is too short never give
  the error status. In every case, the error status included, the frame returns the zones
  that were computed: those of the bars, then the ATR extensions, then the previous day's
  levels.
\<close>

theorem frame_status_error_iff_fetch_null:
  "(final_status (process_timeframe w tf f) = Error \<longleftrightarrow>
      df_bars f = None \<or> atr_data f = None \<or>
      ((tf = TF_1m \<or> tf = TF_5m) \<and> prev_day_df f = None)) \<and>
   technical_zones (process_timeframe w tf f) =
     zones (bars_step w tf (df_bars f)) @
     atr_zones tf (df_bars f) (snd (atr_step (atr_data f) (bars_step w tf (df_bars f)))) @
     (case prev_day_df f of
        Some prev_df \<Rightarrow> if tf = TF_1m \<or> tf = TF_5m then prev_day_zones prev_df else []
      | None \<Rightarrow> [])"
  using frame_error_iff [of w tf f] frame_zones [of w tf f] by blast

theorem frame_status_error_iff_fetch_null_witness:
  "final_status (process_timeframe (1 / 10) TF_1d
     \<lparr>df_bars = Some [], atr_data = Some [Some (5 / 2)], prev_day_df = None\<rparr>) \<noteq> Error \<and>
   final_status (process_timeframe (1 / 10) TF_1d
     \<lparr>df_bars = Some [], atr_data = Some [Some (5 / 2)], prev_day_df = None\<rparr>) = Warning \<and>
   technical_zones (process_timeframe (1 / 10) TF_1d
     \<lparr>df_bars = Some [], atr_data = Some [Some (5 / 2)], prev_day_df = None\<rparr>) = []"
proof -
  let ?f = "\<lparr>df_bars = Some [], atr_data = Some [Some (5 / 2)], prev_day_df = None\<rparr>"
  have a: "final_status (process_timeframe (1 / 10) TF_1d ?f) \<noteq> Error"
    using frame_status_error_iff_fetch_null [of "1 / 10" TF_1d ?f] by simp
  have b: "final_status (process_timeframe (1 / 10) TF_1d ?f) = Warning \<and>
           technical_zones (process_timeframe (1 / 10) TF_1d ?f) = []"
    by code_simp
  from a b show ?thesis by blast
qed

end
